theory Spec2Isabelle
  imports Main
begin

section \<open>JavaScript values\<close>

text \<open>
  The session cookie's payload and the token endpoint's response body are JSON read at
  run time, so the TypeScript types of \<open>SessionData\<close> and \<open>TokenResponse\<close> are not
  guaranteed: a field can be absent (\<open>undefined\<close>) or of another type. Values are
  therefore modelled as JavaScript values. Numbers are the integers (timestamps in
  milliseconds, lifetimes in seconds), the two infinities (JSON text such as \<open>1e999\<close>
  parses to \<open>Infinity\<close>) and \<open>NaN\<close>, which arithmetic on an absent field produces.
  Fractions, and the rounding of integers beyond 2^53, are not modelled.
\<close>

datatype jsnum = Fin int | PosInf | NegInf | NaN

datatype jsval =
    JUndefined
  | JNull
  | JBool bool
  | JNum jsnum
  | JStr string
  | JArr "jsval list"
  | JObj "(string \<times> jsval) list"

text \<open>What a \<open>throw\<close> carries: \<open>new Error(message)\<close>, the TypeError of a property read on
  \<open>null\<close> or \<open>undefined\<close>, and whatever a host function (fetch, atob, JSON.parse) throws.\<close>

datatype error = Error string | TypeError | HostError string

text \<open>Sequencing of steps that may throw: the first exception ends the block.\<close>

fun and_then :: "error + 'a \<Rightarrow> ('a \<Rightarrow> error + 'b) \<Rightarrow> error + 'b" where
  "and_then (Inl e) f = Inl e"
| "and_then (Inr x) f = f x"

text \<open>Truthiness, as \<open>!v\<close>, \<open>a || b\<close> and \<open>c ? x : y\<close> test it.\<close>

fun truthy :: "jsval \<Rightarrow> bool" where
  "truthy JUndefined = False"
| "truthy JNull = False"
| "truthy (JBool b) = b"
| "truthy (JNum (Fin n)) = (n \<noteq> 0)"
| "truthy (JNum PosInf) = True"
| "truthy (JNum NegInf) = True"
| "truthy (JNum NaN) = False"
| "truthy (JStr s) = (s \<noteq> [])"
| "truthy (JArr xs) = True"
| "truthy (JObj kvs) = True"

fun typeof :: "jsval \<Rightarrow> string" where
  "typeof JUndefined = ''undefined''"
| "typeof JNull = ''object''"
| "typeof (JBool b) = ''boolean''"
| "typeof (JNum n) = ''number''"
| "typeof (JStr s) = ''string''"
| "typeof (JArr xs) = ''object''"
| "typeof (JObj kvs) = ''object''"

text \<open>
  A property read \<open>v.k\<close>: a TypeError on \<open>null\<close> and \<open>undefined\<close>, the field of an object
  (\<open>undefined\<close> when it has none), and \<open>undefined\<close> on the other values (none of the keys
  read by this program is a built-in property of a string, a number or an array).
\<close>

fun get_prop :: "jsval \<Rightarrow> string \<Rightarrow> error + jsval" where
  "get_prop JUndefined k = Inl TypeError"
| "get_prop JNull k = Inl TypeError"
| "get_prop (JObj kvs) k = Inr (case map_of kvs k of Some v \<Rightarrow> v | None \<Rightarrow> JUndefined)"
| "get_prop (JBool b) k = Inr JUndefined"
| "get_prop (JNum n) k = Inr JUndefined"
| "get_prop (JStr s) k = Inr JUndefined"
| "get_prop (JArr xs) k = Inr JUndefined"

text \<open>\<open>a || b\<close> on values.\<close>

definition js_or :: "jsval \<Rightarrow> jsval \<Rightarrow> jsval" where
  "js_or a b = (if truthy a then a else b)"

text \<open>Arithmetic and comparison of numbers: \<open>NaN\<close> is absorbing, \<open>Infinity - Infinity\<close>
  and \<open>0 * Infinity\<close> are \<open>NaN\<close>, and every comparison with \<open>NaN\<close> is false.\<close>

fun num_neg :: "jsnum \<Rightarrow> jsnum" where
  "num_neg (Fin a) = Fin (- a)"
| "num_neg PosInf = NegInf"
| "num_neg NegInf = PosInf"
| "num_neg NaN = NaN"

fun num_sign :: "jsnum \<Rightarrow> int" where
  "num_sign (Fin a) = sgn a"
| "num_sign PosInf = 1"
| "num_sign NegInf = - 1"
| "num_sign NaN = 0"

fun num_add :: "jsnum \<Rightarrow> jsnum \<Rightarrow> jsnum" where
  "num_add (Fin a) (Fin b) = Fin (a + b)"
| "num_add NaN b = NaN"
| "num_add a NaN = NaN"
| "num_add PosInf NegInf = NaN"
| "num_add NegInf PosInf = NaN"
| "num_add PosInf b = PosInf"
| "num_add a PosInf = PosInf"
| "num_add NegInf b = NegInf"
| "num_add a NegInf = NegInf"

fun num_sub :: "jsnum \<Rightarrow> jsnum \<Rightarrow> jsnum" where
  "num_sub (Fin a) (Fin b) = Fin (a - b)"
| "num_sub a b = num_add a (num_neg b)"

fun num_mul :: "jsnum \<Rightarrow> jsnum \<Rightarrow> jsnum" where
  "num_mul (Fin a) (Fin b) = Fin (a * b)"
| "num_mul NaN b = NaN"
| "num_mul a NaN = NaN"
| "num_mul a b =
     (if num_sign a * num_sign b = 0 then NaN
      else if num_sign a * num_sign b > 0 then PosInf
      else NegInf)"

fun num_gt :: "jsnum \<Rightarrow> jsnum \<Rightarrow> bool" where
  "num_gt (Fin a) (Fin b) = (a > b)"
| "num_gt NaN b = False"
| "num_gt a NaN = False"
| "num_gt a PosInf = False"
| "num_gt PosInf b = True"
| "num_gt NegInf b = False"
| "num_gt a NegInf = True"

fun num_le :: "jsnum \<Rightarrow> jsnum \<Rightarrow> bool" where
  "num_le (Fin a) (Fin b) = (a \<le> b)"
| "num_le NaN b = False"
| "num_le a NaN = False"
| "num_le a PosInf = True"
| "num_le PosInf b = False"
| "num_le NegInf b = True"
| "num_le a NegInf = False"

section \<open>The host: clock, environment, network, cookie framework, built-ins\<close>

text \<open>
  Everything the program calls but does not define is a field of the host:
  \<^item> \<open>Date_now\<close>: the value the next reading of \<open>Date.now()\<close> returns, and \<open>Date_later\<close>:
    the values of the readings after it, in order (\<open>tick\<close> is the host after one reading);
  \<^item> \<open>import_meta_env\<close>, \<open>process_env\<close>: the two environments (\<open>None\<close> when the object
    does not exist in this runtime), each a map from names to strings;
  \<^item> \<open>fetch\<close>: the answer of the network to a POST of a JSON body to a URL;
  \<^item> \<open>cookie_serialize\<close>, \<open>cookie_parse\<close>: the web framework's \<open>createCookie(..).serialize\<close>
    and \<open>.parse\<close> (signing, encoding, decoding), and \<open>user_agent_cookie\<close>: the Cookie request
    header a user agent sends after it received a Set-Cookie header; the text of these
    headers has the type \<open>'c\<close>, which the program only passes on;
  \<^item> \<open>atob\<close>, \<open>btoa\<close>, \<open>JSON_parse\<close>, \<open>JSON_stringify\<close>, \<open>decodeURIComponent\<close>,
    \<open>ToNumber_object\<close> (the conversion to a number of strings, arrays and objects).
\<close>

datatype fetch_outcome =
    NetworkError error
  | HttpResponse (ok: bool) (text_or_statusText: string) (json: "error + jsval")

record cookie_options =
  name :: string
  secrets :: "string list"
  sameSite :: string
  path :: string
  httpOnly :: bool
  secure :: bool
  maxAge :: int

record 'c host =
  Date_now :: int
  Date_later :: "nat \<Rightarrow> int"
  import_meta_env :: "(string \<Rightarrow> string option) option"
  process_env :: "(string \<Rightarrow> string option) option"
  fetch :: "string \<Rightarrow> jsval \<Rightarrow> fetch_outcome"
  cookie_serialize :: "cookie_options \<Rightarrow> jsval \<Rightarrow> 'c"
  cookie_parse :: "cookie_options \<Rightarrow> 'c option \<Rightarrow> jsval"
  user_agent_cookie :: "'c \<Rightarrow> 'c"
  atob :: "string \<Rightarrow> error + string"
  btoa :: "string \<Rightarrow> string"
  JSON_parse :: "string \<Rightarrow> error + jsval"
  JSON_stringify :: "jsval \<Rightarrow> string"
  decodeURIComponent :: "string \<Rightarrow> error + string"
  ToNumber_object :: "jsval \<Rightarrow> jsnum"

text \<open>The host after one reading of the clock.\<close>

definition tick :: "'c host \<Rightarrow> 'c host" where
  "tick h = h\<lparr> Date_now := Date_later h 0, Date_later := (\<lambda>n. Date_later h (Suc n)) \<rparr>"

fun ToNumber :: "'c host \<Rightarrow> jsval \<Rightarrow> jsnum" where
  "ToNumber h JUndefined = NaN"
| "ToNumber h JNull = Fin 0"
| "ToNumber h (JBool b) = Fin (if b then 1 else 0)"
| "ToNumber h (JNum n) = n"
| "ToNumber h (JStr s) = ToNumber_object h (JStr s)"
| "ToNumber h (JArr xs) = ToNumber_object h (JArr xs)"
| "ToNumber h (JObj kvs) = ToNumber_object h (JObj kvs)"

record 'c request =
  url_origin :: string
  url_searchParams :: "(string \<times> string) list"
  header_Cookie :: "'c option"

text \<open>\<open>url.searchParams.get(k)\<close>: the first value of the key, \<open>null\<close> when it has none.\<close>

definition searchParams_get :: "'c request \<Rightarrow> string \<Rightarrow> string option" where
  "searchParams_get req k = map_of (url_searchParams req) k"

text \<open>\<open>process.env[k]\<close> and \<open>import.meta.env[k]\<close> as values: \<open>undefined\<close> when unset.\<close>

definition env_lookup :: "(string \<Rightarrow> string option) option \<Rightarrow> string \<Rightarrow> string option" where
  "env_lookup env k = (case env of None \<Rightarrow> None | Some m \<Rightarrow> m k)"

section \<open>session.ts\<close>

record cookie_config =
  SESSION_MAX_AGE :: int
  REFRESH_WINDOW :: int
  AUTH_STATE_MAX_AGE :: int

definition COOKIE_CONFIG :: cookie_config where
  "COOKIE_CONFIG = \<lparr> SESSION_MAX_AGE = 24 * 60 * 60,
                     REFRESH_WINDOW = 5 * 60 * 1000,
                     AUTH_STATE_MAX_AGE = 60 * 60 \<rparr>"

definition SESSION_SECRET :: "'c host \<Rightarrow> string" where
  "SESSION_SECRET h =
     (case env_lookup (process_env h) ''SESSION_SECRET'' of
        None \<Rightarrow> ''default-secret-key-for-dev''
      | Some v \<Rightarrow> if v = [] then ''default-secret-key-for-dev'' else v)"

definition sessionCookie :: "'c host \<Rightarrow> cookie_options" where
  "sessionCookie h =
     \<lparr> name = ''__session'',
       secrets = [SESSION_SECRET h],
       sameSite = ''lax'',
       path = ''/'',
       httpOnly = True,
       secure = (env_lookup (process_env h) ''NODE_ENV'' = Some ''production''),
       maxAge = SESSION_MAX_AGE COOKIE_CONFIG \<rparr>"

text \<open>
  \<open>createSessionData(tokens, refreshTokenDefault?)\<close>. The session is the object literal
  of the source; \<open>tokens.expires_in\<close> is read first (a TypeError when \<open>tokens\<close> is
  \<open>null\<close>), the refresh token is \<open>tokens.refresh_token || refreshTokenDefault\<close>, and the
  only check is that this value is truthy. An omitted second argument is \<open>JUndefined\<close>.
\<close>

definition createSessionData :: "'c host \<Rightarrow> jsval \<Rightarrow> jsval \<Rightarrow> error + jsval" where
  "createSessionData h tokens refreshTokenDefault =
     and_then (get_prop tokens ''expires_in'') (\<lambda>expires_in.
       let expiresAt = num_add (Fin (Date_now h)) (num_mul (ToNumber h expires_in) (Fin 1000)) in
       and_then (get_prop tokens ''refresh_token'') (\<lambda>refresh_token.
         let refreshToken = js_or refresh_token refreshTokenDefault in
         if \<not> truthy refreshToken then Inl (Error ''No refresh token available'')
         else
           and_then (get_prop tokens ''access_token'') (\<lambda>access_token.
           and_then (get_prop tokens ''id_token'') (\<lambda>id_token.
             Inr (JObj [(''accessToken'', access_token),
                        (''idToken'', id_token),
                        (''refreshToken'', refreshToken),
                        (''expiresAt'', JNum expiresAt)])))))"

definition hasValidSessionFields :: "jsval \<Rightarrow> error + bool" where
  "hasValidSessionFields session =
     (if \<not> truthy session then Inr False
      else
        and_then (get_prop session ''accessToken'') (\<lambda>accessToken.
        and_then (get_prop session ''idToken'') (\<lambda>idToken.
        and_then (get_prop session ''refreshToken'') (\<lambda>refreshToken.
        and_then (get_prop session ''expiresAt'') (\<lambda>expiresAt.
          Inr (typeof accessToken = ''string'' \<and>
               typeof idToken = ''string'' \<and>
               typeof refreshToken = ''string'' \<and>
               typeof expiresAt = ''number''))))))"

definition isRefreshable :: "'c host \<Rightarrow> jsval \<Rightarrow> error + bool" where
  "isRefreshable h session =
     (let now = Date_now h;
          maxAge = now - (SESSION_MAX_AGE COOKIE_CONFIG * 1000) in
      and_then (get_prop session ''expiresAt'') (\<lambda>expiresAt.
        Inr (num_gt (ToNumber h expiresAt) (Fin maxAge))))"

definition isValidSession :: "'c host \<Rightarrow> jsval \<Rightarrow> error + bool" where
  "isValidSession h session =
     and_then (hasValidSessionFields session) (\<lambda>fields.
       if \<not> fields then Inr False
       else
         let now = Date_now h in
         and_then (get_prop session ''expiresAt'') (\<lambda>expiresAt.
           Inr (num_gt (ToNumber h expiresAt) (Fin now))))"

definition sessionNeedsRefresh :: "'c host \<Rightarrow> jsval \<Rightarrow> error + bool" where
  "sessionNeedsRefresh h session =
     (if \<not> truthy session then Inr False
      else
        let now = Date_now h in
        and_then (get_prop session ''expiresAt'') (\<lambda>expiresAt.
          let timeUntilExpiry = num_sub (ToNumber h expiresAt) (Fin now) in
          Inr (num_le timeUntilExpiry (Fin (REFRESH_WINDOW COOKIE_CONFIG)))))"

text \<open>
  \<open>getSession\<close> reads the clock up to three times: \<open>isValidSession\<close> reads it, then
  \<open>isRefreshable\<close> when the session was not valid, then \<open>isValidSession\<close> again in the
  last statement. Each call takes the next reading.
\<close>

definition getSession :: "'c host \<Rightarrow> 'c request \<Rightarrow> error + jsval" where
  "getSession h req =
     (let cookie = header_Cookie req;
          data = cookie_parse h (sessionCookie h) cookie in
      if \<not> truthy data then Inr JNull
      else
        and_then (hasValidSessionFields data) (\<lambda>fields.
          if \<not> fields then Inr JNull
          else
            and_then (isValidSession h data) (\<lambda>valid.
            and_then (if \<not> valid then isRefreshable (tick h) data else Inr False) (\<lambda>refreshable.
              if \<not> valid \<and> refreshable then Inr data
              else
                (let h' = (if \<not> valid then tick (tick h) else tick h) in
                 and_then (isValidSession h' data) (\<lambda>valid2.
                   Inr (if valid2 then data else JNull)))))))"

text \<open>The values of the three readings a call of \<open>getSession\<close> on the host can take.\<close>

definition getSession_readings :: "'c host \<Rightarrow> int list" where
  "getSession_readings h = [Date_now h, Date_now (tick h), Date_now (tick (tick h))]"

definition createSessionHeader :: "'c host \<Rightarrow> jsval \<Rightarrow> 'c" where
  "createSessionHeader h session =
     (if \<not> truthy session
      then cookie_serialize h ((sessionCookie h)\<lparr> maxAge := 0 \<rparr>) (JStr [])
      else cookie_serialize h (sessionCookie h) session)"

section \<open>auth.ts\<close>

record Auth0Config =
  domain :: string
  clientId :: string
  clientSecret :: string
  callbackUrl :: string
  audience :: "string option"

text \<open>The state cookie is created without \<open>secrets\<close>. Vite's boolean
  \<open>import.meta.env.PROD\<close> is read here as the string \<open>true\<close>.\<close>

definition stateCookie :: "'c host \<Rightarrow> cookie_options" where
  "stateCookie h =
     \<lparr> name = ''__auth_state'',
       secrets = [],
       sameSite = ''lax'',
       path = ''/'',
       httpOnly = True,
       secure = (env_lookup (import_meta_env h) ''PROD'' = Some ''true''),
       maxAge = AUTH_STATE_MAX_AGE COOKIE_CONFIG \<rparr>"

text \<open>\<open>import.meta.env[name]\<close> is read directly: a TypeError where \<open>import.meta.env\<close> does
  not exist, and an Error where the value is unset or empty.\<close>

definition getRequiredEnvVar :: "'c host \<Rightarrow> string \<Rightarrow> error + string" where
  "getRequiredEnvVar h var =
     (case import_meta_env h of
        None \<Rightarrow> Inl TypeError
      | Some env \<Rightarrow>
          (case env var of
             None \<Rightarrow> Inl (Error (''Missing required environment variable: '' @ var))
           | Some v \<Rightarrow>
               if v = [] then Inl (Error (''Missing required environment variable: '' @ var))
               else Inr v))"

definition getBaseUrl :: "'c request \<Rightarrow> string" where
  "getBaseUrl req = url_origin req"

definition getAuth0Config :: "'c host \<Rightarrow> 'c request \<Rightarrow> error + Auth0Config" where
  "getAuth0Config h req =
     and_then (getRequiredEnvVar h ''AUTH0_DOMAIN'') (\<lambda>d.
     and_then (getRequiredEnvVar h ''AUTH0_CLIENT_ID'') (\<lambda>cid.
     and_then (getRequiredEnvVar h ''AUTH0_CLIENT_SECRET'') (\<lambda>csecret.
       Inr \<lparr> domain = d,
             clientId = cid,
             clientSecret = csecret,
             callbackUrl = getBaseUrl req @ ''/auth/callback'',
             audience = env_lookup (import_meta_env h) ''AUTH0_AUDIENCE'' \<rparr>)))"

text \<open>\<open>a === b\<close>: equal primitives; a parsed object or array is identical to no other
  value, and \<open>NaN\<close> equals nothing.\<close>

fun strict_equals :: "jsval \<Rightarrow> jsval \<Rightarrow> bool" where
  "strict_equals (JArr xs) b = False"
| "strict_equals (JObj kvs) b = False"
| "strict_equals (JNum NaN) b = False"
| "strict_equals a b = (a = b)"

definition verifyState :: "'c host \<Rightarrow> 'c request \<Rightarrow> string \<Rightarrow> bool" where
  "verifyState h req state =
     (let cookie = header_Cookie req;
          savedState = cookie_parse h (stateCookie h) cookie in
      strict_equals savedState (JStr state))"

text \<open>A call of \<open>fetch\<close>: the URL and the JSON body posted. The functions that reach the
  network return the calls they made beside their result.\<close>

type_synonym net_call = "string \<times> jsval"

text \<open>After \<open>response.json()\<close> the function logs \<open>tokens.access_token ? .. : ..\<close> and five
  more fields: the first read throws when the body is \<open>null\<close>.\<close>

definition read_token_response :: "string \<Rightarrow> fetch_outcome \<Rightarrow> error + jsval" where
  "read_token_response failure outcome =
     (case outcome of
        NetworkError e \<Rightarrow> Inl e
      | HttpResponse is_ok txt body \<Rightarrow>
          if \<not> is_ok then Inl (Error (failure @ txt))
          else
            and_then body (\<lambda>tokens.
            and_then (get_prop tokens ''access_token'') (\<lambda>logged.
              Inr tokens)))"

text \<open>The URL \<open>https://${config.domain}/oauth/token\<close> and the two bodies posted to it.\<close>

definition token_endpoint :: "Auth0Config \<Rightarrow> string" where
  "token_endpoint config = ''https://'' @ domain config @ ''/oauth/token''"

definition authorization_code_grant :: "Auth0Config \<Rightarrow> string \<Rightarrow> jsval" where
  "authorization_code_grant config code =
     JObj [(''grant_type'', JStr ''authorization_code''),
           (''client_id'', JStr (clientId config)),
           (''client_secret'', JStr (clientSecret config)),
           (''code'', JStr code),
           (''redirect_uri'', JStr (callbackUrl config))]"

definition refresh_token_grant :: "Auth0Config \<Rightarrow> jsval \<Rightarrow> jsval" where
  "refresh_token_grant config refreshToken =
     JObj [(''grant_type'', JStr ''refresh_token''),
           (''client_id'', JStr (clientId config)),
           (''client_secret'', JStr (clientSecret config)),
           (''refresh_token'', refreshToken)]"

definition exchangeCodeForTokens ::
  "'c host \<Rightarrow> Auth0Config \<Rightarrow> string \<Rightarrow> net_call list \<times> (error + jsval)" where
  "exchangeCodeForTokens h config code =
     (let url = token_endpoint config;
          body = authorization_code_grant config code;
          response = fetch h url body in
      ([(url, body)], read_token_response ''Token exchange failed: '' response))"

definition refreshTokens ::
  "'c host \<Rightarrow> Auth0Config \<Rightarrow> jsval \<Rightarrow> net_call list \<times> (error + jsval)" where
  "refreshTokens h config refreshToken =
     (let url = token_endpoint config;
          body = refresh_token_grant config refreshToken;
          response = fetch h url body in
      ([(url, body)], read_token_response ''Token refresh failed: '' response))"

section \<open>refresh.ts\<close>

datatype 'c auth_loader_data = AuthLoaderData (session_of: jsval) (Set_Cookie_of: "'c option")

text \<open>The \<open>try\<close> block of \<open>refreshSessionIfNeeded\<close>. The reading of the clock at the
  top of the function feeds a log line only, and \<open>h\<close> is the host once it is taken:
  \<open>sessionNeedsRefresh\<close> takes the reading \<open>Date_now h\<close>, and \<open>createSessionData\<close> the one
  after it.\<close>

definition refresh_try ::
  "'c host \<Rightarrow> 'c request \<Rightarrow> jsval \<Rightarrow> net_call list \<times> (error + 'c auth_loader_data)" where
  "refresh_try h req session =
     (case getAuth0Config h req of
        Inl e \<Rightarrow> ([], Inl e)
      | Inr config \<Rightarrow>
          (case get_prop session ''refreshToken'' of
             Inl e \<Rightarrow> ([], Inl e)
           | Inr refreshToken \<Rightarrow>
               (case refreshTokens h config refreshToken of
                  (calls, Inl e) \<Rightarrow> (calls, Inl e)
                | (calls, Inr tokens) \<Rightarrow>
                    (case createSessionData (tick h) tokens refreshToken of
                       Inl e \<Rightarrow> (calls, Inl e)
                     | Inr newSession \<Rightarrow>
                         (calls, Inr (AuthLoaderData newSession
                                        (Some (createSessionHeader h newSession))))))))"

definition refreshSessionIfNeeded ::
  "'c host \<Rightarrow> 'c request \<Rightarrow> jsval \<Rightarrow> net_call list \<times> (error + 'c auth_loader_data)" where
  "refreshSessionIfNeeded h req session =
     (if \<not> truthy session then ([], Inr (AuthLoaderData session None))
      else
        (case sessionNeedsRefresh h session of
           Inl e \<Rightarrow> ([], Inl e)
         | Inr needed \<Rightarrow>
             if \<not> needed then ([], Inr (AuthLoaderData session None))
             else
               (case refresh_try h req session of
                  (calls, Inr result) \<Rightarrow> (calls, Inr result)
                | (calls, Inl e) \<Rightarrow>
                    (calls, Inr (AuthLoaderData JNull (Some (createSessionHeader h JNull)))))))"

section \<open>routes/callback.tsx\<close>

datatype 'c response = Redirect (location: string) (Set_Cookie: "'c option")

text \<open>The \<open>try\<close> block of the callback loader.\<close>

definition callback_try ::
  "'c host \<Rightarrow> 'c request \<Rightarrow> string \<Rightarrow> net_call list \<times> (error + 'c response)" where
  "callback_try h req code =
     (case getAuth0Config h req of
        Inl e \<Rightarrow> ([], Inl e)
      | Inr config \<Rightarrow>
          (case exchangeCodeForTokens h config code of
             (calls, Inl e) \<Rightarrow> (calls, Inl e)
           | (calls, Inr tokens) \<Rightarrow>
               (case createSessionData h tokens JUndefined of
                  Inl e \<Rightarrow> (calls, Inl e)
                | Inr session \<Rightarrow>
                    (calls, Inr (Redirect ''/'' (Some (createSessionHeader h session)))))))"

text \<open>\<open>!code\<close> on \<open>string | null\<close>: absent or empty. Past the guard both parameters
  are strings, so the last case of the loader is never reached.\<close>

definition missing :: "string option \<Rightarrow> bool" where
  "missing p = (case p of None \<Rightarrow> True | Some s \<Rightarrow> s = [])"

definition loader :: "'c host \<Rightarrow> 'c request \<Rightarrow> net_call list \<times> (error + 'c response)" where
  "loader h req =
     (let code = searchParams_get req ''code'';
          state = searchParams_get req ''state'' in
      if missing code \<or> missing state
      then ([], Inl (Error ''Invalid callback parameters''))
      else
        (case (code, state) of
           (Some code, Some state) \<Rightarrow>
             if \<not> verifyState h req state
             then ([], Inr (Redirect ''/login?error=invalid_state'' None))
             else
               (case callback_try h req code of
                  (calls, Inr result) \<Rightarrow> (calls, Inr result)
                | (calls, Inl e) \<Rightarrow>
                    (calls, Inr (Redirect ''/login?error=auth_callback_failed'' None)))
         | (c, s) \<Rightarrow> ([], Inl (Error ''Invalid callback parameters''))))"

section \<open>dev-auth.ts\<close>

definition getEnv :: "'c host \<Rightarrow> string \<Rightarrow> string option" where
  "getEnv h var =
     (case import_meta_env h of
        Some env \<Rightarrow> env var
      | None \<Rightarrow>
          (case process_env h of
             Some env \<Rightarrow> env var
           | None \<Rightarrow> None))"

text \<open>\<open>v || 'development'\<close> on \<open>string | undefined\<close>.\<close>

definition or_development :: "string option \<Rightarrow> string" where
  "or_development v =
     (case v of None \<Rightarrow> ''development'' | Some s \<Rightarrow> if s = [] then ''development'' else s)"

definition getMode :: "'c host \<Rightarrow> string" where
  "getMode h =
     (case import_meta_env h of
        Some env \<Rightarrow> or_development (env ''MODE'')
      | None \<Rightarrow>
          (case process_env h of
             Some env \<Rightarrow> or_development (env ''NODE_ENV'')
           | None \<Rightarrow> ''development''))"

definition shouldSkipAuth :: "'c host \<Rightarrow> bool" where
  "shouldSkipAuth h =
     (let nodeEnv = getMode h;
          skipAuth = getEnv h ''SKIP_AUTH'' in
      if nodeEnv = ''development'' then skipAuth \<noteq> Some ''false''
      else skipAuth = Some ''true'')"

definition mock_picture :: string where
  "mock_picture = ''data:image/svg+xml,%3Csvg xmlns='http://www.w3.org/2000/svg' viewBox='0 0 100 100'%3E%3Ccircle cx='50' cy='50' r='50' fill='%23dbeafe'/%3E%3Ccircle cx='50' cy='35' r='16' fill='%233b82f6'/%3E%3Cpath d='M50 55c-17 0-25 8-25 20v10h50V75c0-12-8-20-25-20z' fill='%233b82f6'/%3E%3C/svg%3E''"

text \<open>\<open>Math.floor(Date.now() / 1000)\<close> is \<open>div\<close> on the integers, which rounds down.\<close>

definition createMockJwt :: "'c host \<Rightarrow> string" where
  "createMockJwt h =
     (let payload = JObj [(''sub'', JStr ''dev|123456789''),
                          (''name'', JStr ''Dev User''),
                          (''nickname'', JStr ''devuser''),
                          (''picture'', JStr mock_picture),
                          (''email'', JStr ''dev@example.com''),
                          (''email_verified'', JBool True),
                          (''iat'', JNum (Fin (Date_now h div 1000))),
                          (''exp'', JNum (Fin (Date_now h div 1000 + 365 * 24 * 60 * 60)))];
          header = JObj [(''alg'', JStr ''none''), (''typ'', JStr ''JWT'')];
          encodedHeader = btoa h (JSON_stringify h header);
          encodedPayload = btoa h (JSON_stringify h payload) in
      encodedHeader @ ''.'' @ encodedPayload @ ''.mock-signature'')"

definition createDevSession :: "'c host \<Rightarrow> jsval" where
  "createDevSession h =
     (let oneYear = 365 * 24 * 60 * 60 * 1000 in
      JObj [(''accessToken'', JStr ''dev-access-token''),
            (''idToken'', JStr (createMockJwt h)),
            (''refreshToken'', JStr ''dev-refresh-token''),
            (''expiresAt'', JNum (Fin (Date_now h + oneYear)))])"

section \<open>jwt.ts\<close>

text \<open>\<open>token.split('.')\<close>: the segments between the dots; never the empty list.\<close>

fun split_on :: "char \<Rightarrow> string \<Rightarrow> string list" where
  "split_on d [] = [[]]"
| "split_on d (c # cs) =
     (if c = d then [] # split_on d cs
      else (case split_on d cs of
              [] \<Rightarrow> [[c]]
            | w # ws \<Rightarrow> (c # w) # ws))"

text \<open>\<open>parts[i]\<close>: \<open>undefined\<close> beyond the last segment.\<close>

fun segment :: "string list \<Rightarrow> nat \<Rightarrow> string option" where
  "segment [] i = None"
| "segment (p # ps) 0 = Some p"
| "segment (p # ps) (Suc i) = segment ps i"

text \<open>\<open>'%' + ('00' + c.charCodeAt(0).toString(16)).slice(-2)\<close> for each character of the
  decoded binary string (character codes 0 to 255).\<close>

definition hex_digit :: "nat \<Rightarrow> char" where
  "hex_digit n = (if n < 10 then char_of (48 + n) else char_of (87 + n))"

definition toString16 :: "nat \<Rightarrow> string" where
  "toString16 n = (if n < 16 then [hex_digit n] else [hex_digit (n div 16), hex_digit (n mod 16)])"

definition slice_last2 :: "string \<Rightarrow> string" where
  "slice_last2 s = drop (length s - 2) s"

definition percent_encode :: "string \<Rightarrow> string" where
  "percent_encode s = concat (map (\<lambda>c. CHR ''%'' # slice_last2 (''00'' @ toString16 (of_char c))) s)"

definition base64url_to_base64 :: "string \<Rightarrow> string" where
  "base64url_to_base64 s =
     map (\<lambda>c. if c = CHR ''_'' then CHR ''/'' else c)
       (map (\<lambda>c. if c = CHR ''-'' then CHR ''+'' else c) s)"

text \<open>The \<open>try\<close> block of \<open>parseJwt\<close>. \<open>atob(undefined)\<close> decodes the text
  \<open>undefined\<close>; \<open>!base64Url\<close> holds for an absent and for an empty second segment.\<close>

definition parseJwt_try :: "'c host \<Rightarrow> string \<Rightarrow> error + jsval" where
  "parseJwt_try h token =
     (let parts = split_on CHR ''.'' token in
      and_then (atob h (case segment parts 0 of None \<Rightarrow> ''undefined'' | Some p \<Rightarrow> p)) (\<lambda>decoded.
      and_then (JSON_parse h decoded) (\<lambda>header.
      and_then (get_prop header ''enc'') (\<lambda>enc.
        if truthy enc then Inr JNull
        else
          (case segment parts 1 of
             None \<Rightarrow> Inr JNull
           | Some base64Url \<Rightarrow>
               if base64Url = [] then Inr JNull
               else
                 (let base64 = base64url_to_base64 base64Url in
                  and_then (atob h base64) (\<lambda>binary.
                  and_then (decodeURIComponent h (percent_encode binary)) (\<lambda>jsonPayload.
                    JSON_parse h jsonPayload))))))))"

definition parseJwt :: "'c host \<Rightarrow> string \<Rightarrow> error + jsval" where
  "parseJwt h token =
     (case parseJwt_try h token of
        Inr payload \<Rightarrow> Inr payload
      | Inl e \<Rightarrow> Inr JNull)"

section \<open>The cookie framework\<close>

text \<open>
  Modelled from the spec: \<open>createCookie\<close>, with its \<open>serialize\<close> and \<open>parse\<close>, belongs to
  the web framework and is not among the sources. The specification (sections 4.2 and
  6) gives its contract: a reversible mapping between a value and a single signed cookie
  named for the session, whose value is the signed serialization of the JSON shape of the
  value, with the attributes \<open>Max-Age\<close>, \<open>Path\<close>, \<open>SameSite\<close>, \<open>HttpOnly\<close> and \<open>Secure\<close>; the
  empty value is written for a deletion; a cookie that is absent or was not signed with
  the cookie's secrets is read as \<open>null\<close>.

  The JSON shape of a value is what \<open>JSON.parse(JSON.stringify(v))\<close> returns: a number
  that is not finite becomes \<open>null\<close>, a field whose value is \<open>undefined\<close> is left out, and
  \<open>undefined\<close> in an array becomes \<open>null\<close>. (A bare \<open>undefined\<close> has no JSON text; the
  program never serializes one.)
\<close>

fun json_shape :: "jsval \<Rightarrow> jsval" where
  "json_shape (JNum (Fin n)) = JNum (Fin n)"
| "json_shape (JNum n) = JNull"
| "json_shape (JArr xs) = JArr (map (\<lambda>x. if x = JUndefined then JNull else json_shape x) xs)"
| "json_shape (JObj kvs) =
     JObj (map (\<lambda>(k, v). (k, json_shape v)) (filter (\<lambda>(k, v). v \<noteq> JUndefined) kvs))"
| "json_shape v = v"

text \<open>The text of a header: a Set-Cookie header with its attributes, or the Cookie header
  of a request with the cookies it carries. A cookie's value is empty, or the JSON shape
  of a value sealed with the secrets of the cookie that wrote it.\<close>

datatype cookie_value = EmptyValue | Sealed "string list" jsval

datatype header_text =
    SetCookieHeader string cookie_value int string string bool bool
  | CookieHeader "(string \<times> cookie_value) list"

definition framework_serialize :: "cookie_options \<Rightarrow> jsval \<Rightarrow> header_text" where
  "framework_serialize opts v =
     SetCookieHeader (name opts)
       (if v = JStr [] then EmptyValue else Sealed (secrets opts) (json_shape v))
       (maxAge opts) (path opts) (sameSite opts) (httpOnly opts) (secure opts)"

definition framework_parse :: "cookie_options \<Rightarrow> header_text option \<Rightarrow> jsval" where
  "framework_parse opts hdr =
     (case hdr of
        None \<Rightarrow> JNull
      | Some (SetCookieHeader n v age p ss ho sec) \<Rightarrow> JNull
      | Some (CookieHeader cookies) \<Rightarrow>
          (case map_of cookies (name opts) of
             None \<Rightarrow> JNull
           | Some EmptyValue \<Rightarrow> JStr []
           | Some (Sealed signed_with v) \<Rightarrow> if signed_with = secrets opts then v else JNull))"

text \<open>The user agent keeps a cookie whose \<open>Max-Age\<close> is positive and sends it back; it
  drops one whose \<open>Max-Age\<close> is zero or less.\<close>

definition framework_user_agent :: "header_text \<Rightarrow> header_text" where
  "framework_user_agent hdr =
     (case hdr of
        SetCookieHeader n v age p ss ho sec \<Rightarrow>
          if age > 0 then CookieHeader [(n, v)] else CookieHeader []
      | CookieHeader cookies \<Rightarrow> CookieHeader cookies)"

text \<open>A host with this cookie framework, and everything else as in \<open>h\<close>.\<close>

definition framework_host :: "'c host \<Rightarrow> header_text host" where
  "framework_host h =
     \<lparr> Date_now = Date_now h,
       Date_later = Date_later h,
       import_meta_env = import_meta_env h,
       process_env = process_env h,
       fetch = fetch h,
       cookie_serialize = framework_serialize,
       cookie_parse = framework_parse,
       user_agent_cookie = framework_user_agent,
       atob = atob h,
       btoa = btoa h,
       JSON_parse = JSON_parse h,
       JSON_stringify = JSON_stringify h,
       decodeURIComponent = decodeURIComponent h,
       ToNumber_object = ToNumber_object h \<rparr>"

section \<open>The session states of the specification\<close>

text \<open>
  The source has no function that names the state of a session; the specification does
  (section 4.3): Absent for no session, Valid for \<open>expiresAt > now\<close>, Refreshable for
  \<open>expiresAt <= now\<close> with \<open>now - maxAge_ms < expiresAt\<close>, Dead otherwise or when a field
  is invalid. \<open>spec_classify\<close> follows these words, so that the source's predicates can be
  compared with them; the comparisons are those of JavaScript numbers, so that an
  \<open>expiresAt\<close> of \<open>Infinity\<close> is Valid, and one of \<open>-Infinity\<close> or \<open>NaN\<close> is Dead.
\<close>

datatype session_state = Absent | Valid | Refreshable | Dead

definition spec_classify :: "int \<Rightarrow> int \<Rightarrow> jsval \<Rightarrow> session_state" where
  "spec_classify now maxAge_ms session =
     (if session = JNull then Absent
      else if hasValidSessionFields session \<noteq> Inr True then Dead
      else
        (case get_prop session ''expiresAt'' of
           Inr (JNum expiresAt) \<Rightarrow>
             if num_gt expiresAt (Fin now) then Valid
             else if num_gt expiresAt (Fin (now - maxAge_ms)) then Refreshable
             else Dead
         | other \<Rightarrow> Dead))"

section \<open>A concrete host and concrete inputs\<close>

text \<open>
  A host to evaluate the program on: the clock reads \<open>now\<close> at every reading, the three
  Auth0 variables are set, the network answers every call with \<open>answer\<close>, and the cookie framework holds
  one value, \<open>stored\<close>, which it writes as \<open><name>=stored\<close> and reads back from exactly
  that header. The decoding built-ins know one text: \<open>e30\<close> is the base64 of \<open>{}\<close>,
  the JSON of the empty object, and they reject every other input; the encoding ones
  answer as for the empty object.
\<close>

definition example_env :: "(string \<times> string) list \<Rightarrow> string \<Rightarrow> string option" where
  "example_env kvs = map_of kvs"

definition example_host :: "int \<Rightarrow> jsval \<Rightarrow> fetch_outcome \<Rightarrow> string host" where
  "example_host now stored answer =
     \<lparr> Date_now = now,
       Date_later = (\<lambda>n. now),
       import_meta_env = Some (example_env [(''AUTH0_DOMAIN'', ''tenant.example''),
                                            (''AUTH0_CLIENT_ID'', ''client''),
                                            (''AUTH0_CLIENT_SECRET'', ''secret'')]),
       process_env = Some (example_env []),
       fetch = (\<lambda>url body. answer),
       cookie_serialize = (\<lambda>opts v. name opts @ (if v = stored then ''=stored'' else ''=other'')
                                     @ (if maxAge opts = 0 then ''; Max-Age=0'' else ''; Max-Age=n'')),
       cookie_parse = (\<lambda>opts c. if c = Some (name opts @ ''=stored'') then stored else JNull),
       user_agent_cookie = takeWhile (\<lambda>c. c \<noteq> CHR '';''),
       atob = (\<lambda>s. if s = ''e30'' then Inr ''{}''
                    else Inl (HostError ''InvalidCharacterError'')),
       btoa = (\<lambda>s. ''e30=''),
       JSON_parse = (\<lambda>s. if s = ''{}'' then Inr (JObj [])
                          else Inl (HostError ''SyntaxError'')),
       JSON_stringify = (\<lambda>v. ''{}''),
       decodeURIComponent = (\<lambda>s. if s = ''%7b%7d'' then Inr ''{}''
                                  else Inl (HostError ''URIError'')),
       ToNumber_object = (\<lambda>v. NaN) \<rparr>"

definition example_session :: "int \<Rightarrow> jsval" where
  "example_session e =
     JObj [(''accessToken'', JStr ''a''), (''idToken'', JStr ''i''),
           (''refreshToken'', JStr ''r''), (''expiresAt'', JNum (Fin e))]"

definition example_request ::
  "(string \<times> string) list \<Rightarrow> 'c option \<Rightarrow> 'c request" where
  "example_request params cookie =
     \<lparr> url_origin = ''https://app.example'', url_searchParams = params, header_Cookie = cookie \<rparr>"

text \<open>A token response without a \<open>refresh_token\<close>, and the configuration that
  \<open>getAuth0Config\<close> reads from the concrete host for a request to \<open>app.example\<close>.\<close>

definition example_tokens :: jsval where
  "example_tokens =
     JObj [(''access_token'', JStr ''a2''), (''id_token'', JStr ''i2''),
           (''expires_in'', JNum (Fin 3600))]"

definition example_config :: Auth0Config where
  "example_config =
     \<lparr> domain = ''tenant.example'', clientId = ''client'', clientSecret = ''secret'',
       callbackUrl = ''https://app.example/auth/callback'', audience = None \<rparr>"

text \<open>A session that never expires: its \<open>expiresAt\<close> is \<open>Infinity\<close>. A host whose clock
  reads \<open>first\<close> and then \<open>later\<close>.\<close>

definition example_unbounded_session :: jsval where
  "example_unbounded_session =
     JObj [(''accessToken'', JStr ''a''), (''idToken'', JStr ''i''),
           (''refreshToken'', JStr ''r''), (''expiresAt'', JNum PosInf)]"

definition example_clock :: "int \<Rightarrow> int \<Rightarrow> jsval \<Rightarrow> string host" where
  "example_clock first later stored =
     (example_host first stored (NetworkError TypeError))\<lparr> Date_later := (\<lambda>n. later) \<rparr>"

text \<open>A token response whose access token lives for two days.\<close>

definition example_long_tokens :: jsval where
  "example_long_tokens =
     JObj [(''access_token'', JStr ''a2''), (''id_token'', JStr ''i2''),
           (''refresh_token'', JStr ''r2''), (''expires_in'', JNum (Fin 172800))]"

section \<open>Reading a session: field validation and expiry\<close>

lemma get_prop_truthy: "truthy v \<Longrightarrow> \<exists>x. get_prop v k = Inr x"
  by (cases v) auto

lemma hasValidSessionFields_truthy:
  "hasValidSessionFields s = Inr True \<Longrightarrow> truthy s"
  by (auto simp: hasValidSessionFields_def split: if_splits)

lemma hasValidSessionFields_total: "\<exists>b. hasValidSessionFields s = Inr b"
proof (cases "truthy s")
  case False
  then show ?thesis by (auto simp add: hasValidSessionFields_def)
next
  case True
  obtain a i r e where
    "get_prop s ''accessToken'' = Inr a" "get_prop s ''idToken'' = Inr i"
    "get_prop s ''refreshToken'' = Inr r" "get_prop s ''expiresAt'' = Inr e"
    using get_prop_truthy[OF True] by metis
  with True show ?thesis by (simp add: hasValidSessionFields_def)
qed

lemma isValidSession_num:
  assumes "hasValidSessionFields s = Inr True" and "get_prop s ''expiresAt'' = Inr (JNum n)"
  shows "isValidSession h s = Inr (num_gt n (Fin (Date_now h)))"
  using assms by (simp add: isValidSession_def)

lemma isRefreshable_num:
  assumes "get_prop s ''expiresAt'' = Inr (JNum n)"
  shows "isRefreshable h s
           = Inr (num_gt n (Fin (Date_now h - SESSION_MAX_AGE COOKIE_CONFIG * 1000)))"
  using assms by (simp add: isRefreshable_def)

lemma isValidSession_eq:
  assumes "hasValidSessionFields s = Inr True" and "get_prop s ''expiresAt'' = Inr (JNum (Fin e))"
  shows "isValidSession h s = Inr (e > Date_now h)"
  using isValidSession_num[OF assms] by simp

lemma isRefreshable_eq:
  assumes "get_prop s ''expiresAt'' = Inr (JNum (Fin e))"
  shows "isRefreshable h s = Inr (e > Date_now h - SESSION_MAX_AGE COOKIE_CONFIG * 1000)"
  using isRefreshable_num[OF assms] by simp

text \<open>What \<open>getSession\<close> returns for a session with the four fields, by the readings of
  the clock: the first decides between the two paths, the later ones the result.\<close>

lemma getSession_num:
  assumes "hasValidSessionFields s = Inr True" and "get_prop s ''expiresAt'' = Inr (JNum n)"
    and "cookie_parse h (sessionCookie h) (header_Cookie req) = s"
  shows "getSession h req =
           Inr (if num_gt n (Fin (Date_now h))
                then (if num_gt n (Fin (Date_now (tick h))) then s else JNull)
                else if num_gt n (Fin (Date_now (tick h) - SESSION_MAX_AGE COOKIE_CONFIG * 1000))
                then s
                else if num_gt n (Fin (Date_now (tick (tick h)))) then s
                else JNull)"
  using assms hasValidSessionFields_truthy[OF assms(1)]
  by (auto simp: getSession_def Let_def isValidSession_num[OF assms(1,2)]
      isRefreshable_num[OF assms(2)])

lemma getSession_eq:
  assumes "hasValidSessionFields s = Inr True" and "get_prop s ''expiresAt'' = Inr (JNum (Fin e))"
    and "cookie_parse h (sessionCookie h) (header_Cookie req) = s"
  shows "getSession h req =
           Inr (if e > Date_now h
                then (if e > Date_now (tick h) then s else JNull)
                else if e > Date_now (tick h) - SESSION_MAX_AGE COOKIE_CONFIG * 1000 then s
                else if e > Date_now (tick (tick h)) then s
                else JNull)"
  using getSession_num[OF assms] by simp

text \<open>A session that is valid at the first reading and expired at the second is not
  returned, although it is within the cookie's maximum age.\<close>

lemma getSession_expiring_between_readings:
  assumes "hasValidSessionFields s = Inr True" and "get_prop s ''expiresAt'' = Inr (JNum (Fin e))"
    and "cookie_parse h (sessionCookie h) (header_Cookie req) = s"
    and "e > Date_now h" and "e \<le> Date_now (tick h)"
  shows "getSession h req = Inr JNull"
  using getSession_eq[OF assms(1,2,3)] assms(4,5) by simp

lemma example_session_fields: "hasValidSessionFields (example_session e) = Inr True"
  by (simp add: example_session_def hasValidSessionFields_def)

lemma example_session_expiresAt:
  "get_prop (example_session e) ''expiresAt'' = Inr (JNum (Fin e))"
  by (simp add: example_session_def)

lemma example_host_session_parse:
  "cookie_parse (example_host now s answer) (sessionCookie (example_host now s answer))
     (header_Cookie (example_request params (Some ''__session=stored''))) = s"
  by (simp add: example_host_def example_request_def sessionCookie_def)

lemma example_host_readings:
  "getSession_readings (example_host now s answer) = [now, now, now]"
  by (simp add: getSession_readings_def tick_def example_host_def)

lemma session_max_age_ms: "SESSION_MAX_AGE COOKIE_CONFIG * 1000 = 86400000"
  by (simp add: COOKIE_CONFIG_def)

lemma example_session_not_null: "example_session e \<noteq> JNull"
  by (simp add: example_session_def)

text \<open>
  C3. Take a session with the four fields, whose \<open>expiresAt\<close> is any number, and the
  readings of the clock that \<open>getSession\<close> can take. If at each of them \<open>expiresAt\<close> is in
  the past by less than the cookie's maximum age (\<open>SESSION_MAX_AGE\<close>, in milliseconds),
  the session is Refreshable there, fails \<open>isValidSession\<close>, passes \<open>isRefreshable\<close>, and
  \<open>getSession\<close> returns it. If at each of them it is expired by more than the maximum
  age, it is Dead there and \<open>getSession\<close> returns \<open>null\<close>.
\<close>

theorem getSession_refreshable_or_dead:
  assumes "hasValidSessionFields s = Inr True"
    and "get_prop s ''expiresAt'' = Inr (JNum n)"
    and "cookie_parse h (sessionCookie h) (header_Cookie req) = s"
  shows "((\<forall>now \<in> set (getSession_readings h).
             num_le n (Fin now) \<and> num_gt n (Fin (now - SESSION_MAX_AGE COOKIE_CONFIG * 1000))) \<longrightarrow>
            (\<forall>now \<in> set (getSession_readings h).
               spec_classify now (SESSION_MAX_AGE COOKIE_CONFIG * 1000) s = Refreshable) \<and>
            isValidSession h s = Inr False \<and> isRefreshable (tick h) s = Inr True \<and>
            getSession h req = Inr s)
       \<and> ((\<forall>now \<in> set (getSession_readings h).
             num_gt (Fin (now - SESSION_MAX_AGE COOKIE_CONFIG * 1000)) n) \<longrightarrow>
            (\<forall>now \<in> set (getSession_readings h).
               spec_classify now (SESSION_MAX_AGE COOKIE_CONFIG * 1000) s = Dead) \<and>
            isValidSession h s = Inr False \<and> isRefreshable (tick h) s = Inr False \<and>
            isValidSession (tick (tick h)) s = Inr False \<and>
            getSession h req = Inr JNull)"
proof -
  have ne: "s \<noteq> JNull" using hasValidSessionFields_truthy[OF assms(1)] by auto
  have pos: "(0::int) < SESSION_MAX_AGE COOKIE_CONFIG * 1000" by (simp add: COOKIE_CONFIG_def)
  have cl: "spec_classify now (SESSION_MAX_AGE COOKIE_CONFIG * 1000) s =
              (if num_gt n (Fin now) then Valid
               else if num_gt n (Fin (now - SESSION_MAX_AGE COOKIE_CONFIG * 1000)) then Refreshable
               else Dead)" for now
    using ne assms(1,2) by (simp add: spec_classify_def)
  show ?thesis
    using pos
    by (cases n)
       (auto simp: getSession_num[OF assms] isValidSession_num[OF assms(1,2)]
                   isRefreshable_num[OF assms(2)] cl getSession_readings_def)
qed

theorem getSession_refreshable_or_dead_witness:
  "getSession (example_host 1000000000 (example_session 999999000) (NetworkError TypeError))
     (example_request [] (Some ''__session=stored'')) = Inr (example_session 999999000)
   \<and> spec_classify 1000000000 86400000 (example_session 999999000) = Refreshable
   \<and> getSession (example_host 1000000000 (example_session 1000) (NetworkError TypeError))
     (example_request [] (Some ''__session=stored'')) = Inr JNull
   \<and> spec_classify 1000000000 86400000 (example_session 1000) = Dead"
proof -
  let ?Ha = "example_host 1000000000 (example_session 999999000) (NetworkError TypeError)"
  let ?Hb = "example_host 1000000000 (example_session 1000) (NetworkError TypeError)"
  let ?R = "example_request [] (Some ''__session=stored'')"
  note a = getSession_refreshable_or_dead[of "example_session 999999000" "Fin 999999000" ?Ha ?R,
      OF example_session_fields example_session_expiresAt example_host_session_parse]
  note b = getSession_refreshable_or_dead[of "example_session 1000" "Fin 1000" ?Hb ?R,
      OF example_session_fields example_session_expiresAt example_host_session_parse]
  from a b show ?thesis
    by (simp add: example_host_readings session_max_age_ms)
qed

text \<open>When the clock passes \<open>expiresAt\<close> between two readings of one call, the hypothesis
  of C3 holds at the later reading only. On a clock that reads 999 and then 1001, a
  session that expires at 1000 is read as \<open>null\<close>: valid at the first reading, it is no
  longer so at the second, where it is Refreshable.\<close>

lemma getSession_race_example:
  "getSession (example_clock 999 1001 (example_session 1000))
     (example_request [] (Some ''__session=stored'')) = Inr JNull
   \<and> spec_classify 1001 (SESSION_MAX_AGE COOKIE_CONFIG * 1000) (example_session 1000) = Refreshable"
proof -
  let ?H = "example_clock 999 1001 (example_session 1000)"
  let ?R = "example_request [] (Some ''__session=stored'')"
  have p: "cookie_parse ?H (sessionCookie ?H) (header_Cookie ?R) = example_session 1000"
    by (simp add: example_clock_def example_host_def example_request_def sessionCookie_def)
  have t: "Date_now ?H = 999" "Date_now (tick ?H) = 1001"
    by (simp_all add: example_clock_def example_host_def tick_def)
  have "getSession ?H ?R = Inr JNull"
    using getSession_expiring_between_readings[OF example_session_fields
        example_session_expiresAt p] t by simp
  then show ?thesis
    by (simp add: spec_classify_def example_session_fields example_session_expiresAt
        example_session_not_null session_max_age_ms)
qed

section \<open>When a session is due for refresh\<close>

lemma sessionNeedsRefresh_eq:
  assumes "truthy s" and "get_prop s ''expiresAt'' = Inr (JNum (Fin e))"
  shows "sessionNeedsRefresh h s = Inr (e - Date_now h \<le> REFRESH_WINDOW COOKIE_CONFIG)"
  using assms by (simp add: sessionNeedsRefresh_def)

lemma example_session_truthy: "truthy (example_session e)"
  by (simp add: example_session_def)

lemma refresh_window_ms: "REFRESH_WINDOW COOKIE_CONFIG = 300000"
  by (simp add: COOKIE_CONFIG_def)

text \<open>
  C4, as the code has it. For a session with the four fields, \<open>sessionNeedsRefresh\<close> is
  true exactly when \<open>expiresAt - now <= REFRESH_WINDOW\<close> (5 minutes). Hence for a Valid
  session it is true iff the session is within 5 minutes of its expiry, and it is true
  for every expired session, Refreshable or Dead alike: the function never looks at the
  cookie's maximum age. It is false for \<open>null\<close>.
\<close>

theorem sessionNeedsRefresh_window:
  assumes "hasValidSessionFields s = Inr True"
    and "get_prop s ''expiresAt'' = Inr (JNum (Fin e))"
  shows "sessionNeedsRefresh h s = Inr (e - Date_now h \<le> 5 * 60 * 1000)
       \<and> (spec_classify (Date_now h) (SESSION_MAX_AGE COOKIE_CONFIG * 1000) s = Valid \<longrightarrow>
            (sessionNeedsRefresh h s = Inr True \<longleftrightarrow> e - Date_now h \<le> 5 * 60 * 1000))
       \<and> (spec_classify (Date_now h) (SESSION_MAX_AGE COOKIE_CONFIG * 1000) s = Refreshable \<longrightarrow>
            sessionNeedsRefresh h s = Inr True)
       \<and> (spec_classify (Date_now h) (SESSION_MAX_AGE COOKIE_CONFIG * 1000) s = Dead \<longrightarrow>
            sessionNeedsRefresh h s = Inr True)
       \<and> sessionNeedsRefresh h JNull = Inr False"
proof -
  have t: "truthy s" using assms(1) by (rule hasValidSessionFields_truthy)
  have ne: "s \<noteq> JNull" using t by auto
  have n: "sessionNeedsRefresh h s = Inr (e - Date_now h \<le> 5 * 60 * 1000)"
    using sessionNeedsRefresh_eq[OF t assms(2)] by (simp add: refresh_window_ms)
  have null: "sessionNeedsRefresh h JNull = Inr False"
    by (simp add: sessionNeedsRefresh_def)
  show ?thesis
    using ne assms n null
    by (auto simp: spec_classify_def session_max_age_ms split: if_splits)
qed

theorem sessionNeedsRefresh_window_witness:
  "sessionNeedsRefresh (example_host 1000000000 JNull (NetworkError TypeError))
     (example_session 1000200000) = Inr True
   \<and> sessionNeedsRefresh (example_host 1000000000 JNull (NetworkError TypeError))
     (example_session 1003600000) = Inr False
   \<and> spec_classify 1000000000 86400000 (example_session 1003600000) = Valid"
proof -
  let ?h = "example_host 1000000000 JNull (NetworkError TypeError)"
  have now: "Date_now ?h = 1000000000" by (simp add: example_host_def)
  note a = sessionNeedsRefresh_window[of "example_session 1000200000" 1000200000 ?h,
      OF example_session_fields example_session_expiresAt]
  note b = sessionNeedsRefresh_window[of "example_session 1003600000" 1003600000 ?h,
      OF example_session_fields example_session_expiresAt]
  have c: "spec_classify 1000000000 86400000 (example_session 1003600000) = Valid"
    by (simp add: spec_classify_def example_session_fields example_session_expiresAt
        example_session_not_null)
  from a b c show ?thesis by (simp add: now)
qed

text \<open>
  The claim of C4 as it is written (true iff Valid within the window, or Refreshable)
  fails on a Dead session: one that expired eleven days ago is due for refresh.
\<close>

theorem sessionNeedsRefresh_dead_counterexample:
  "sessionNeedsRefresh (example_host 1000000000 JNull (NetworkError TypeError))
     (example_session 1000) = Inr True
   \<and> spec_classify (Date_now (example_host 1000000000 JNull (NetworkError TypeError)))
        (SESSION_MAX_AGE COOKIE_CONFIG * 1000) (example_session 1000) = Dead"
  using sessionNeedsRefresh_eq[of "example_session 1000" 1000
      "example_host 1000000000 JNull (NetworkError TypeError)",
      OF example_session_truthy example_session_expiresAt]
  by (simp add: spec_classify_def example_session_fields example_session_expiresAt
      example_session_not_null example_host_def COOKIE_CONFIG_def)

section \<open>Writing a session and reading it back\<close>

lemma map_of_json_shape:
  assumes "map_of kvs k = Some v" and "v \<noteq> JUndefined"
  shows "map_of (map (\<lambda>(k, v). (k, json_shape v)) (filter (\<lambda>(k, v). v \<noteq> JUndefined) kvs)) k
           = Some (json_shape v)"
  using assms by (induction kvs) (auto split: if_splits)

lemma get_prop_json_shape:
  assumes "get_prop s k = Inr v" and "v \<noteq> JUndefined"
  shows "get_prop (json_shape s) k = Inr (json_shape v)"
proof (cases s)
  case (JObj kvs)
  with assms have "map_of kvs k = Some v" by (auto split: option.splits)
  with JObj assms(2) show ?thesis by (simp add: map_of_json_shape)
qed (use assms in auto)

lemma typeof_string: "typeof v = ''string'' \<Longrightarrow> \<exists>x. v = JStr x"
  by (cases v) auto

lemma typeof_number: "typeof v = ''number'' \<Longrightarrow> \<exists>n. v = JNum n"
  by (cases v) auto

lemma hasValidSessionFields_values:
  assumes "hasValidSessionFields s = Inr True"
  shows "\<exists>a i r n. get_prop s ''accessToken'' = Inr (JStr a) \<and>
           get_prop s ''idToken'' = Inr (JStr i) \<and>
           get_prop s ''refreshToken'' = Inr (JStr r) \<and>
           get_prop s ''expiresAt'' = Inr (JNum n)"
proof -
  have t: "truthy s" using assms by (rule hasValidSessionFields_truthy)
  obtain a i r e where p:
    "get_prop s ''accessToken'' = Inr a" "get_prop s ''idToken'' = Inr i"
    "get_prop s ''refreshToken'' = Inr r" "get_prop s ''expiresAt'' = Inr e"
    using get_prop_truthy[OF t] by metis
  have "typeof a = ''string''" "typeof i = ''string''" "typeof r = ''string''"
    "typeof e = ''number''"
    using assms t p by (simp_all add: hasValidSessionFields_def)
  with p show ?thesis
    using typeof_string typeof_number by metis
qed

text \<open>The JSON shape of a session with the four fields and a finite \<open>expiresAt\<close> has the
  same four fields.\<close>

lemma json_shape_session:
  assumes "hasValidSessionFields s = Inr True" and "get_prop s ''expiresAt'' = Inr (JNum (Fin e))"
  shows "hasValidSessionFields (json_shape s) = Inr True"
    and "get_prop (json_shape s) ''accessToken'' = get_prop s ''accessToken''"
    and "get_prop (json_shape s) ''idToken'' = get_prop s ''idToken''"
    and "get_prop (json_shape s) ''refreshToken'' = get_prop s ''refreshToken''"
    and "get_prop (json_shape s) ''expiresAt'' = Inr (JNum (Fin e))"
proof -
  obtain a i r n where p: "get_prop s ''accessToken'' = Inr (JStr a)"
    "get_prop s ''idToken'' = Inr (JStr i)" "get_prop s ''refreshToken'' = Inr (JStr r)"
    "get_prop s ''expiresAt'' = Inr (JNum n)"
    using hasValidSessionFields_values[OF assms(1)] by blast
  have q: "get_prop (json_shape s) ''accessToken'' = Inr (JStr a)"
    "get_prop (json_shape s) ''idToken'' = Inr (JStr i)"
    "get_prop (json_shape s) ''refreshToken'' = Inr (JStr r)"
    "get_prop (json_shape s) ''expiresAt'' = Inr (JNum (Fin e))"
    using get_prop_json_shape[OF p(1)] get_prop_json_shape[OF p(2)]
      get_prop_json_shape[OF p(3)] get_prop_json_shape[OF assms(2)] by simp_all
  have t: "truthy (json_shape s)"
    using q(1) by (cases "json_shape s") auto
  show "hasValidSessionFields (json_shape s) = Inr True"
    using t q by (simp add: hasValidSessionFields_def)
  show "get_prop (json_shape s) ''accessToken'' = get_prop s ''accessToken''"
    "get_prop (json_shape s) ''idToken'' = get_prop s ''idToken''"
    "get_prop (json_shape s) ''refreshToken'' = get_prop s ''refreshToken''"
    "get_prop (json_shape s) ''expiresAt'' = Inr (JNum (Fin e))"
    using p q by simp_all
qed

lemma framework_host_clock:
  "Date_now (framework_host h) = Date_now h"
  "tick (framework_host h) = framework_host (tick h)"
  by (simp_all add: framework_host_def tick_def)

lemma framework_host_readings:
  "getSession_readings (framework_host h) = getSession_readings h"
  by (simp add: getSession_readings_def framework_host_clock)

lemma framework_sessionCookie: "sessionCookie (framework_host h) = sessionCookie h"
  by (simp add: sessionCookie_def SESSION_SECRET_def framework_host_def)

text \<open>What the user agent sends back after \<open>createSessionHeader\<close> wrote a session, and what
  the framework reads from it.\<close>

lemma framework_write_read:
  assumes "truthy s"
  shows "cookie_parse (framework_host h) (sessionCookie (framework_host h))
           (Some (user_agent_cookie (framework_host h) (createSessionHeader (framework_host h) s)))
         = json_shape s"
proof -
  have ne: "s \<noteq> JStr []" using assms by auto
  have age: "maxAge (sessionCookie h) > 0"
    by (simp add: sessionCookie_def COOKIE_CONFIG_def)
  have fw: "cookie_serialize (framework_host h) = framework_serialize"
    "cookie_parse (framework_host h) = framework_parse"
    "user_agent_cookie (framework_host h) = framework_user_agent"
    by (simp_all add: framework_host_def)
  show ?thesis
    using assms ne age
    by (simp add: createSessionHeader_def framework_sessionCookie fw framework_serialize_def
        framework_user_agent_def framework_parse_def)
qed

text \<open>
  C8, as the code has it. With the cookie framework of the specification, a session
  with the four fields and a finite \<open>expiresAt\<close> that is ahead of every reading of the
  clock, written by \<open>createSessionHeader\<close> and sent back by the user agent, is read by
  \<open>getSession\<close> as its JSON shape: a session with the same four fields, and the session
  itself when it is the object of these four fields.
\<close>

theorem write_read_roundtrip:
  assumes "hasValidSessionFields s = Inr True"
    and "get_prop s ''expiresAt'' = Inr (JNum (Fin e))"
    and "\<forall>now \<in> set (getSession_readings h). e > now"
  shows "getSession (framework_host h)
           (req\<lparr> header_Cookie := Some (user_agent_cookie (framework_host h)
                                         (createSessionHeader (framework_host h) s)) \<rparr>)
         = Inr (json_shape s)
       \<and> get_prop (json_shape s) ''accessToken'' = get_prop s ''accessToken''
       \<and> get_prop (json_shape s) ''idToken'' = get_prop s ''idToken''
       \<and> get_prop (json_shape s) ''refreshToken'' = get_prop s ''refreshToken''
       \<and> get_prop (json_shape s) ''expiresAt'' = get_prop s ''expiresAt''
       \<and> (s = JObj [(''accessToken'', JStr a), (''idToken'', JStr i),
                    (''refreshToken'', JStr r), (''expiresAt'', JNum (Fin e))] \<longrightarrow>
            json_shape s = s)"
proof -
  let ?fh = "framework_host h"
  let ?req = "req\<lparr> header_Cookie := Some (user_agent_cookie ?fh (createSessionHeader ?fh s)) \<rparr>"
  note js = json_shape_session[OF assms(1,2)]
  have t: "truthy s" using assms(1) by (rule hasValidSessionFields_truthy)
  have parse: "cookie_parse ?fh (sessionCookie ?fh) (header_Cookie ?req) = json_shape s"
    using framework_write_read[OF t, of h] by simp
  have ahead: "e > Date_now h" "e > Date_now (tick h)"
    using assms(3) by (simp_all add: getSession_readings_def)
  have "getSession ?fh ?req = Inr (json_shape s)"
    using getSession_eq[OF js(1) js(5) parse] ahead by (simp add: framework_host_clock)
  then show ?thesis
    using js assms(2) by auto
qed

theorem write_read_roundtrip_witness:
  "createSessionHeader (framework_host (example_host 1000000000 JNull (NetworkError TypeError)))
     (example_session 1003600000)
   = SetCookieHeader ''__session''
       (Sealed [''default-secret-key-for-dev''] (example_session 1003600000))
       86400 ''/'' ''lax'' True False
   \<and> getSession (framework_host (example_host 1000000000 JNull (NetworkError TypeError)))
       (example_request []
          (Some (framework_user_agent
             (createSessionHeader
                (framework_host (example_host 1000000000 JNull (NetworkError TypeError)))
                (example_session 1003600000)))))
     = Inr (example_session 1003600000)"
proof -
  let ?H = "example_host 1000000000 JNull (NetworkError TypeError)"
  let ?S = "example_session 1003600000"
  have shape: "json_shape ?S = ?S" by (simp add: example_session_def)
  have hdr: "createSessionHeader (framework_host ?H) ?S
             = SetCookieHeader ''__session'' (Sealed [''default-secret-key-for-dev''] ?S)
                 86400 ''/'' ''lax'' True False"
    unfolding createSessionHeader_def framework_sessionCookie
    by (simp add: framework_host_def framework_serialize_def sessionCookie_def shape
        SESSION_SECRET_def COOKIE_CONFIG_def example_host_def env_lookup_def example_env_def)
      (simp add: example_session_def)
  have ua: "user_agent_cookie (framework_host ?H) = framework_user_agent"
    by (simp add: framework_host_def)
  have req: "(example_request [] None)\<lparr> header_Cookie :=
               Some (framework_user_agent (createSessionHeader (framework_host ?H) ?S)) \<rparr>
             = example_request []
                 (Some (framework_user_agent (createSessionHeader (framework_host ?H) ?S)))"
    by (simp add: example_request_def)
  have ahead: "\<forall>now \<in> set (getSession_readings ?H). 1003600000 > now"
    by (simp add: example_host_readings)
  from write_read_roundtrip[OF example_session_fields example_session_expiresAt ahead,
      where req = "example_request [] None"]
  have "getSession (framework_host ?H)
          (example_request []
             (Some (framework_user_agent (createSessionHeader (framework_host ?H) ?S))))
        = Inr ?S"
    unfolding ua req shape by simp
  with hdr show ?thesis by simp
qed

text \<open>
  The claim of C8 as it is written covers every valid session. A session whose
  \<open>expiresAt\<close> is \<open>Infinity\<close> has the four fields and is valid at every reading of the
  clock, yet its JSON shape has \<open>null\<close> for \<open>expiresAt\<close>, and it is read back as \<open>null\<close>.
\<close>

theorem write_read_unbounded_counterexample:
  "isValidSession (example_host 1000000000 JNull (NetworkError TypeError))
     example_unbounded_session = Inr True
   \<and> getSession (framework_host (example_host 1000000000 JNull (NetworkError TypeError)))
       (example_request []
          (Some (framework_user_agent
             (createSessionHeader
                (framework_host (example_host 1000000000 JNull (NetworkError TypeError)))
                example_unbounded_session))))
     = Inr JNull"
proof -
  let ?H = "example_host 1000000000 JNull (NetworkError TypeError)"
  let ?S = "example_unbounded_session"
  let ?R = "example_request []
          (Some (framework_user_agent (createSessionHeader (framework_host ?H) ?S)))"
  have valid: "isValidSession ?H ?S = Inr True"
    by (simp add: isValidSession_def hasValidSessionFields_def example_unbounded_session_def)
  have t: "truthy ?S" by (simp add: example_unbounded_session_def)
  have ua: "user_agent_cookie (framework_host ?H) = framework_user_agent"
    by (simp add: framework_host_def)
  have parse: "cookie_parse (framework_host ?H) (sessionCookie (framework_host ?H))
                 (header_Cookie ?R) = json_shape ?S"
    using framework_write_read[OF t, of ?H] by (simp add: ua example_request_def)
  have shape: "json_shape ?S =
      JObj [(''accessToken'', JStr ''a''), (''idToken'', JStr ''i''),
            (''refreshToken'', JStr ''r''), (''expiresAt'', JNull)]"
    by (simp add: example_unbounded_session_def)
  have "getSession (framework_host ?H) ?R = Inr JNull"
    unfolding getSession_def Let_def parse shape
    by (simp add: hasValidSessionFields_def)
  with valid show ?thesis by simp
qed

section \<open>The development session and the mode switch\<close>

lemma createDevSession_expiresAt:
  "get_prop (createDevSession h) ''expiresAt'' = Inr (JNum (Fin (Date_now h + 31536000000)))"
  by (simp add: createDevSession_def)

text \<open>
  C9, as the code has it. The development session expires one year (365 days) after
  \<open>now\<close>, and the \<open>exp\<close> claim of its mock token is one year ahead too: the source calls
  it a permanent session that never expires in practice.
\<close>

theorem createDevSession_one_year:
  "get_prop (createDevSession h) ''expiresAt''
     = Inr (JNum (Fin (Date_now h + 365 * 24 * 60 * 60 * 1000)))
   \<and> get_prop (createDevSession h) ''accessToken'' = Inr (JStr ''dev-access-token'')
   \<and> get_prop (createDevSession h) ''refreshToken'' = Inr (JStr ''dev-refresh-token'')
   \<and> hasValidSessionFields (createDevSession h) = Inr True
   \<and> isValidSession h (createDevSession h) = Inr True
   \<and> sessionNeedsRefresh h (createDevSession h) = Inr False"
proof -
  have e: "get_prop (createDevSession h) ''expiresAt'' = Inr (JNum (Fin (Date_now h + 31536000000)))"
    by (rule createDevSession_expiresAt)
  have f: "hasValidSessionFields (createDevSession h) = Inr True"
    by (simp add: createDevSession_def hasValidSessionFields_def)
  have t: "truthy (createDevSession h)" using f by (rule hasValidSessionFields_truthy)
  show ?thesis
    using e f isValidSession_eq[OF f e, of h] sessionNeedsRefresh_eq[OF t e, of h]
    by (simp add: refresh_window_ms) (simp add: createDevSession_def)
qed

theorem createDevSession_one_year_witness:
  "get_prop (createDevSession (example_host 1000000000 JNull (NetworkError TypeError))) ''expiresAt''
     = Inr (JNum (Fin 32536000000))"
  using createDevSession_one_year[of "example_host 1000000000 JNull (NetworkError TypeError)"]
  by (simp add: example_host_def)

text \<open>
  The claim of C9 as it is written (a lifetime of a few hours) fails: the lifetime of
  the development session is beyond 24 hours, and beyond 300 days.
\<close>

theorem createDevSession_lifetime_counterexample:
  "get_prop (createDevSession (example_host 1000000000 JNull (NetworkError TypeError))) ''expiresAt''
     = Inr (JNum (Fin 32536000000))
   \<and> \<not> (32536000000 - Date_now (example_host 1000000000 JNull (NetworkError TypeError))
          \<le> 24 * 60 * 60 * 1000)
   \<and> \<not> (32536000000 - Date_now (example_host 1000000000 JNull (NetworkError TypeError))
          \<le> 300 * 24 * 60 * 60 * 1000)"
  using createDevSession_expiresAt[of "example_host 1000000000 JNull (NetworkError TypeError)"]
  by (simp add: example_host_def)

text \<open>
  C10. When the mode cannot be determined (\<open>MODE\<close> is unset or empty in
  \<open>import.meta.env\<close>, \<open>NODE_ENV\<close> is unset or empty in \<open>process.env\<close>, or neither
  environment exists), \<open>getMode\<close> is \<open>development\<close> and \<open>shouldSkipAuth\<close> is true exactly
  when \<open>SKIP_AUTH\<close>, as \<open>getEnv\<close> reads it, is not the string \<open>false\<close>.
\<close>

theorem shouldSkipAuth_default_mode:
  assumes "missing (env_lookup (import_meta_env h) ''MODE'')"
    and "missing (env_lookup (process_env h) ''NODE_ENV'')"
  shows "getMode h = ''development''
       \<and> shouldSkipAuth h = (getEnv h ''SKIP_AUTH'' \<noteq> Some ''false'')
       \<and> (getEnv h ''SKIP_AUTH'' = None \<longrightarrow> shouldSkipAuth h)"
proof -
  have m: "getMode h = ''development''"
    using assms
    by (auto simp: getMode_def or_development_def missing_def env_lookup_def
             split: option.splits)
  then show ?thesis by (simp add: shouldSkipAuth_def)
qed

theorem shouldSkipAuth_default_mode_witness:
  "getMode ((example_host 0 JNull (NetworkError TypeError))\<lparr> import_meta_env := None \<rparr>)
     = ''development''
   \<and> shouldSkipAuth ((example_host 0 JNull (NetworkError TypeError))\<lparr> import_meta_env := None \<rparr>)
   \<and> shouldSkipAuth (example_host 0 JNull (NetworkError TypeError))
   \<and> \<not> shouldSkipAuth ((example_host 0 JNull (NetworkError TypeError))
        \<lparr> import_meta_env := Some (example_env [(''SKIP_AUTH'', ''false'')]) \<rparr>)"
proof -
  let ?h0 = "example_host 0 JNull (NetworkError TypeError)"
  let ?h1 = "?h0\<lparr> import_meta_env := None \<rparr>"
  let ?h2 = "?h0\<lparr> import_meta_env := Some (example_env [(''SKIP_AUTH'', ''false'')]) \<rparr>"
  have a: "missing (env_lookup (import_meta_env ?h1) ''MODE'')"
          "missing (env_lookup (process_env ?h1) ''NODE_ENV'')"
    by (simp_all add: example_host_def missing_def env_lookup_def example_env_def)
  have b: "missing (env_lookup (import_meta_env ?h0) ''MODE'')"
          "missing (env_lookup (process_env ?h0) ''NODE_ENV'')"
    by (simp_all add: example_host_def missing_def env_lookup_def example_env_def)
  have c: "missing (env_lookup (import_meta_env ?h2) ''MODE'')"
          "missing (env_lookup (process_env ?h2) ''NODE_ENV'')"
    by (simp_all add: example_host_def missing_def env_lookup_def example_env_def)
  have g1: "getEnv ?h1 ''SKIP_AUTH'' = None" by (simp add: getEnv_def example_host_def example_env_def)
  have g0: "getEnv ?h0 ''SKIP_AUTH'' = None" by (simp add: getEnv_def example_host_def example_env_def)
  have g2: "getEnv ?h2 ''SKIP_AUTH'' = Some ''false''"
    by (simp add: getEnv_def example_host_def example_env_def)
  from shouldSkipAuth_default_mode[OF a] shouldSkipAuth_default_mode[OF b]
       shouldSkipAuth_default_mode[OF c]
  show ?thesis unfolding g0 g1 g2 by simp
qed

section \<open>Building a session from a token response\<close>

lemma get_prop_defined: "get_prop v k = Inr x \<Longrightarrow> \<exists>y. get_prop v k' = Inr y"
  by (cases v) auto

lemma createSessionData_eq:
  assumes "get_prop tokens ''expires_in'' = Inr ei"
    and "get_prop tokens ''refresh_token'' = Inr rt"
    and "get_prop tokens ''access_token'' = Inr at"
    and "get_prop tokens ''id_token'' = Inr it"
  shows "createSessionData h tokens fallback =
           (if truthy (js_or rt fallback)
            then Inr (JObj [(''accessToken'', at), (''idToken'', it),
                            (''refreshToken'', js_or rt fallback),
                            (''expiresAt'', JNum (num_add (Fin (Date_now h))
                                                   (num_mul (ToNumber h ei) (Fin 1000))))])
            else Inl (Error ''No refresh token available''))"
  using assms by (simp add: createSessionData_def)

lemma createSessionData_cases:
  assumes "get_prop tokens ''refresh_token'' = Inr rt"
  shows "(truthy (js_or rt fallback) \<and>
          (\<exists>s. createSessionData h tokens fallback = Inr s \<and>
                get_prop s ''refreshToken'' = Inr (js_or rt fallback) \<and> s \<noteq> JNull))
       \<or> (\<not> truthy (js_or rt fallback) \<and>
          createSessionData h tokens fallback = Inl (Error ''No refresh token available''))"
proof -
  obtain ei at it where p: "get_prop tokens ''expires_in'' = Inr ei"
    "get_prop tokens ''access_token'' = Inr at" "get_prop tokens ''id_token'' = Inr it"
    using get_prop_defined[OF assms] by metis
  show ?thesis
    unfolding createSessionData_eq[OF p(1) assms p(2,3)] by simp
qed

lemma read_token_response_ok:
  assumes "get_prop tokens k = Inr x"
  shows "read_token_response msg (HttpResponse True rtext (Inr tokens)) = Inr tokens"
proof -
  obtain y where "get_prop tokens ''access_token'' = Inr y"
    using get_prop_defined[OF assms] by blast
  then show ?thesis by (simp add: read_token_response_def)
qed

lemma loader_verified:
  assumes "searchParams_get req ''code'' = Some code" and "code \<noteq> []"
    and "searchParams_get req ''state'' = Some state" and "state \<noteq> []"
    and "verifyState h req state"
  shows "loader h req =
           (case callback_try h req code of
              (calls, Inr result) \<Rightarrow> (calls, Inr result)
            | (calls, Inl e) \<Rightarrow>
                (calls, Inr (Redirect ''/login?error=auth_callback_failed'' None)))"
  using assms by (simp add: loader_def Let_def missing_def)

lemma refreshSessionIfNeeded_due:
  assumes "truthy session" and "sessionNeedsRefresh h session = Inr True"
  shows "refreshSessionIfNeeded h req session =
           (case refresh_try h req session of
              (calls, Inr result) \<Rightarrow> (calls, Inr result)
            | (calls, Inl e) \<Rightarrow>
                (calls, Inr (AuthLoaderData JNull (Some (createSessionHeader h JNull)))))"
  using assms by (simp add: refreshSessionIfNeeded_def)

text \<open>
  C5. The refresh token of the new session is \<open>tokens.refresh_token\<close> when that is
  present (truthy), otherwise the fallback passed by the caller, and construction throws
  when neither is. The callback passes no fallback: a verified callback whose exchange
  succeeds without a \<open>refresh_token\<close> ends in the redirect for a failed callback, after one
  call of the token endpoint. \<open>refreshSessionIfNeeded\<close> passes the session's own refresh
  token: a refresh answered without a \<open>refresh_token\<close> keeps the prior one.
\<close>

theorem createSessionData_refresh_token:
  assumes "get_prop tokens ''refresh_token'' = Inr rt"
  shows "(truthy rt \<longrightarrow>
            (\<exists>s. createSessionData h tokens fallback = Inr s \<and>
                  get_prop s ''refreshToken'' = Inr rt))
       \<and> (\<not> truthy rt \<and> truthy fallback \<longrightarrow>
            (\<exists>s. createSessionData h tokens fallback = Inr s \<and>
                  get_prop s ''refreshToken'' = Inr fallback))
       \<and> (\<not> truthy rt \<and> \<not> truthy fallback \<longrightarrow>
            createSessionData h tokens fallback = Inl (Error ''No refresh token available''))
       \<and> (\<not> truthy rt \<and>
          searchParams_get req ''code'' = Some code \<and> code \<noteq> [] \<and>
          searchParams_get req ''state'' = Some state \<and> state \<noteq> [] \<and>
          verifyState h req state \<and> getAuth0Config h req = Inr config \<and>
          fetch h (token_endpoint config) (authorization_code_grant config code)
            = HttpResponse True rtext (Inr tokens) \<longrightarrow>
            loader h req =
              ([(token_endpoint config, authorization_code_grant config code)],
               Inr (Redirect ''/login?error=auth_callback_failed'' None)))
       \<and> (\<not> truthy rt \<and>
          truthy session \<and> sessionNeedsRefresh h session = Inr True \<and>
          getAuth0Config h req = Inr config \<and>
          get_prop session ''refreshToken'' = Inr prior \<and> truthy prior \<and>
          fetch h (token_endpoint config) (refresh_token_grant config prior)
            = HttpResponse True rtext (Inr tokens) \<longrightarrow>
            (\<exists>s. refreshSessionIfNeeded h req session =
                    ([(token_endpoint config, refresh_token_grant config prior)],
                     Inr (AuthLoaderData s (Some (createSessionHeader h s)))) \<and>
                  get_prop s ''refreshToken'' = Inr prior))"
proof -
  note cs = createSessionData_cases[OF assms]
  have a: "truthy rt \<longrightarrow>
            (\<exists>s. createSessionData h tokens fallback = Inr s \<and>
                  get_prop s ''refreshToken'' = Inr rt)"
    using cs[of fallback h] by (auto simp: js_or_def)
  have b: "\<not> truthy rt \<and> truthy fallback \<longrightarrow>
            (\<exists>s. createSessionData h tokens fallback = Inr s \<and>
                  get_prop s ''refreshToken'' = Inr fallback)"
    using cs[of fallback h] by (auto simp: js_or_def)
  have c: "\<not> truthy rt \<and> \<not> truthy fallback \<longrightarrow>
            createSessionData h tokens fallback = Inl (Error ''No refresh token available'')"
    using cs[of fallback h] by (auto simp: js_or_def)
  have d: "\<not> truthy rt \<and>
          searchParams_get req ''code'' = Some code \<and> code \<noteq> [] \<and>
          searchParams_get req ''state'' = Some state \<and> state \<noteq> [] \<and>
          verifyState h req state \<and> getAuth0Config h req = Inr config \<and>
          fetch h (token_endpoint config) (authorization_code_grant config code)
            = HttpResponse True rtext (Inr tokens) \<longrightarrow>
            loader h req =
              ([(token_endpoint config, authorization_code_grant config code)],
               Inr (Redirect ''/login?error=auth_callback_failed'' None))"
  proof (intro impI, elim conjE)
    assume rt: "\<not> truthy rt"
      and q: "searchParams_get req ''code'' = Some code" "code \<noteq> []"
        "searchParams_get req ''state'' = Some state" "state \<noteq> []" "verifyState h req state"
      and cfg: "getAuth0Config h req = Inr config"
      and net: "fetch h (token_endpoint config) (authorization_code_grant config code)
                  = HttpResponse True rtext (Inr tokens)"
    have ex: "exchangeCodeForTokens h config code =
                ([(token_endpoint config, authorization_code_grant config code)], Inr tokens)"
      by (simp add: exchangeCodeForTokens_def net read_token_response_ok[OF assms])
    have fail: "createSessionData h tokens JUndefined = Inl (Error ''No refresh token available'')"
      using createSessionData_cases[OF assms, of JUndefined h] rt by (simp add: js_or_def)
    show "loader h req =
              ([(token_endpoint config, authorization_code_grant config code)],
               Inr (Redirect ''/login?error=auth_callback_failed'' None))"
      unfolding loader_verified[OF q] by (simp add: callback_try_def cfg ex fail)
  qed
  have e: "\<not> truthy rt \<and>
          truthy session \<and> sessionNeedsRefresh h session = Inr True \<and>
          getAuth0Config h req = Inr config \<and>
          get_prop session ''refreshToken'' = Inr prior \<and> truthy prior \<and>
          fetch h (token_endpoint config) (refresh_token_grant config prior)
            = HttpResponse True rtext (Inr tokens) \<longrightarrow>
            (\<exists>s. refreshSessionIfNeeded h req session =
                    ([(token_endpoint config, refresh_token_grant config prior)],
                     Inr (AuthLoaderData s (Some (createSessionHeader h s)))) \<and>
                  get_prop s ''refreshToken'' = Inr prior)"
  proof (intro impI, elim conjE)
    assume rt: "\<not> truthy rt"
      and due: "truthy session" "sessionNeedsRefresh h session = Inr True"
      and cfg: "getAuth0Config h req = Inr config"
      and prior: "get_prop session ''refreshToken'' = Inr prior" "truthy prior"
      and net: "fetch h (token_endpoint config) (refresh_token_grant config prior)
                  = HttpResponse True rtext (Inr tokens)"
    have rf: "refreshTokens h config prior =
                ([(token_endpoint config, refresh_token_grant config prior)], Inr tokens)"
      by (simp add: refreshTokens_def net read_token_response_ok[OF assms])
    obtain s where s: "createSessionData (tick h) tokens prior = Inr s"
      "get_prop s ''refreshToken'' = Inr prior"
      using createSessionData_cases[OF assms, of prior "tick h"] rt prior(2)
      by (auto simp: js_or_def)
    have "refreshSessionIfNeeded h req session =
            ([(token_endpoint config, refresh_token_grant config prior)],
             Inr (AuthLoaderData s (Some (createSessionHeader h s))))"
      unfolding refreshSessionIfNeeded_due[OF due]
      by (simp add: refresh_try_def cfg prior(1) rf s(1))
    with s(2) show "\<exists>s. refreshSessionIfNeeded h req session =
                    ([(token_endpoint config, refresh_token_grant config prior)],
                     Inr (AuthLoaderData s (Some (createSessionHeader h s)))) \<and>
                  get_prop s ''refreshToken'' = Inr prior"
      by blast
  qed
  from a b c d e show ?thesis by blast
qed

lemma example_getAuth0Config:
  "getAuth0Config (example_host now stored answer) (example_request params cookie)
     = Inr example_config"
  by (simp add: getAuth0Config_def getRequiredEnvVar_def example_host_def example_env_def
      getBaseUrl_def example_request_def env_lookup_def example_config_def)

lemma example_fetch: "fetch (example_host now stored answer) url body = answer"
  by (simp add: example_host_def)

lemma example_verifyState:
  "verifyState (example_host now (JStr ''s1'') answer)
     (example_request params (Some ''__auth_state=stored'')) ''s1''"
  by (simp add: verifyState_def stateCookie_def example_host_def example_request_def)

lemma example_params:
  "searchParams_get (example_request [(''code'', ''x''), (''state'', ''s1'')] cookie) ''code''
     = Some ''x''"
  "searchParams_get (example_request [(''code'', ''x''), (''state'', ''s1'')] cookie) ''state''
     = Some ''s1''"
  by (simp_all add: searchParams_get_def example_request_def)

lemma example_tokens_refresh_token: "get_prop example_tokens ''refresh_token'' = Inr JUndefined"
  by (simp add: example_tokens_def)

lemma example_session_refreshToken:
  "get_prop (example_session e) ''refreshToken'' = Inr (JStr ''r'')"
  by (simp add: example_session_def)

lemma example_session_due:
  "sessionNeedsRefresh (example_host 1000000000 stored answer) (example_session 999999000)
     = Inr True"
  using sessionNeedsRefresh_eq[of "example_session 999999000" 999999000
      "example_host 1000000000 stored answer", OF example_session_truthy example_session_expiresAt]
  by (simp add: example_host_def refresh_window_ms)

theorem createSessionData_refresh_token_witness:
  "createSessionData
     (example_host 1000000000 (JStr ''s1'') (HttpResponse True [] (Inr example_tokens)))
     example_tokens JUndefined = Inl (Error ''No refresh token available'')
   \<and> loader (example_host 1000000000 (JStr ''s1'') (HttpResponse True [] (Inr example_tokens)))
       (example_request [(''code'', ''x''), (''state'', ''s1'')] (Some ''__auth_state=stored''))
       = ([(token_endpoint example_config, authorization_code_grant example_config ''x'')],
          Inr (Redirect ''/login?error=auth_callback_failed'' None))
   \<and> (\<exists>s. refreshSessionIfNeeded
              (example_host 1000000000 (JStr ''s1'') (HttpResponse True [] (Inr example_tokens)))
              (example_request [(''code'', ''x''), (''state'', ''s1'')] (Some ''__auth_state=stored''))
              (example_session 999999000)
            = ([(token_endpoint example_config, refresh_token_grant example_config (JStr ''r''))],
               Inr (AuthLoaderData s (Some (createSessionHeader
                 (example_host 1000000000 (JStr ''s1'') (HttpResponse True [] (Inr example_tokens)))
                 s))))
          \<and> get_prop s ''refreshToken'' = Inr (JStr ''r''))"
proof -
  let ?H = "example_host 1000000000 (JStr ''s1'') (HttpResponse True [] (Inr example_tokens))"
  let ?R = "example_request [(''code'', ''x''), (''state'', ''s1'')] (Some ''__auth_state=stored'')"
  note t = createSessionData_refresh_token[OF example_tokens_refresh_token,
      where h = "?H" and fallback = JUndefined and req = "?R" and code = "''x''"
        and state = "''s1''" and config = example_config and rtext = "[]"
        and session = "example_session 999999000" and prior = "JStr ''r''"]
  show ?thesis
    using t
    by (simp add: example_params example_verifyState example_getAuth0Config example_fetch
        example_session_truthy example_session_due example_session_refreshToken)
qed

section \<open>The lifetime of the session cookie\<close>

text \<open>The value of the ceiling in the code: 24 hours in seconds, whatever the two
  environments hold.\<close>

lemma session_cookie_maxAge_value: "maxAge (sessionCookie h) = 24 * 60 * 60"
  by (simp add: sessionCookie_def COOKIE_CONFIG_def)

lemma createSessionData_expiresAt:
  assumes "get_prop tokens ''expires_in'' = Inr (JNum (Fin x))"
    and "createSessionData h tokens fallback = Inr s"
  shows "get_prop s ''expiresAt'' = Inr (JNum (Fin (Date_now h + x * 1000)))"
proof -
  obtain rt at it where p: "get_prop tokens ''refresh_token'' = Inr rt"
    "get_prop tokens ''access_token'' = Inr at" "get_prop tokens ''id_token'' = Inr it"
    using get_prop_defined[OF assms(1)] by metis
  show ?thesis
    using assms(2) unfolding createSessionData_eq[OF assms(1) p]
    by (auto split: if_splits)
qed

text \<open>
  C7, as the code has it. The session cookie's \<open>maxAge\<close> is the ceiling
  \<open>COOKIE_CONFIG.SESSION_MAX_AGE\<close>, and it is independent of the expiry of the tokens,
  not a bound on it: every non-null session is written with this \<open>maxAge\<close> whatever its
  \<open>expiresAt\<close>; a session built from a token response whose \<open>expires_in\<close> is above the
  ceiling expires after its cookie; and an expired session with the four fields is read
  back from the cookie when, at each reading of the clock, \<open>expiresAt > now - maxAge\<close>.
\<close>

theorem session_cookie_maxAge_independent:
  "maxAge (sessionCookie h) = SESSION_MAX_AGE COOKIE_CONFIG
   \<and> (truthy s \<longrightarrow> createSessionHeader h s = cookie_serialize h (sessionCookie h) s)
   \<and> (get_prop tokens ''expires_in'' = Inr (JNum (Fin x)) \<and>
        x > SESSION_MAX_AGE COOKIE_CONFIG \<and>
        createSessionData h tokens fallback = Inr built \<longrightarrow>
        (\<exists>e. get_prop built ''expiresAt'' = Inr (JNum (Fin e)) \<and>
              e > Date_now h + maxAge (sessionCookie h) * 1000))
   \<and> (hasValidSessionFields s = Inr True \<and> get_prop s ''expiresAt'' = Inr (JNum (Fin e)) \<and>
        cookie_parse h (sessionCookie h) (header_Cookie req) = s \<and>
        (\<forall>now \<in> set (getSession_readings h).
           e \<le> now \<and> e > now - maxAge (sessionCookie h) * 1000) \<longrightarrow>
        getSession h req = Inr s)"
proof -
  have m: "maxAge (sessionCookie h) = SESSION_MAX_AGE COOKIE_CONFIG"
    by (simp add: sessionCookie_def)
  have w: "truthy s \<longrightarrow> createSessionHeader h s = cookie_serialize h (sessionCookie h) s"
    by (simp add: createSessionHeader_def)
  have o: "get_prop tokens ''expires_in'' = Inr (JNum (Fin x)) \<and>
        x > SESSION_MAX_AGE COOKIE_CONFIG \<and>
        createSessionData h tokens fallback = Inr built \<longrightarrow>
        (\<exists>e. get_prop built ''expiresAt'' = Inr (JNum (Fin e)) \<and>
              e > Date_now h + maxAge (sessionCookie h) * 1000)"
    using createSessionData_expiresAt[of tokens x h fallback built] m by auto
  have r: "hasValidSessionFields s = Inr True \<and> get_prop s ''expiresAt'' = Inr (JNum (Fin e)) \<and>
        cookie_parse h (sessionCookie h) (header_Cookie req) = s \<and>
        (\<forall>now \<in> set (getSession_readings h).
           e \<le> now \<and> e > now - maxAge (sessionCookie h) * 1000) \<longrightarrow>
        getSession h req = Inr s"
  proof (intro impI, elim conjE)
    assume a: "hasValidSessionFields s = Inr True" "get_prop s ''expiresAt'' = Inr (JNum (Fin e))"
      "cookie_parse h (sessionCookie h) (header_Cookie req) = s"
      and b: "\<forall>now \<in> set (getSession_readings h).
                e \<le> now \<and> e > now - maxAge (sessionCookie h) * 1000"
    show "getSession h req = Inr s"
      using b unfolding getSession_eq[OF a] m
      by (simp add: getSession_readings_def)
  qed
  from m w o r show ?thesis by blast
qed

lemma example_long_tokens_session:
  "createSessionData (example_host 1000000000 stored answer) example_long_tokens JUndefined
     = Inr (JObj [(''accessToken'', JStr ''a2''), (''idToken'', JStr ''i2''),
                  (''refreshToken'', JStr ''r2''), (''expiresAt'', JNum (Fin 1172800000))])"
  by (simp add: createSessionData_def example_long_tokens_def js_or_def example_host_def)

theorem session_cookie_maxAge_independent_witness:
  "get_prop (JObj [(''accessToken'', JStr ''a2''), (''idToken'', JStr ''i2''),
                   (''refreshToken'', JStr ''r2''), (''expiresAt'', JNum (Fin 1172800000))])
      ''expiresAt'' = Inr (JNum (Fin 1172800000))
   \<and> 1172800000 > Date_now (example_host 1000000000 (example_session 999999000) (NetworkError TypeError))
        + maxAge (sessionCookie (example_host 1000000000 (example_session 999999000)
            (NetworkError TypeError))) * 1000
   \<and> createSessionHeader (example_host 1000000000 (example_session 999999000) (NetworkError TypeError))
        (example_session 999999000) = ''__session=stored; Max-Age=n''
   \<and> getSession (example_host 1000000000 (example_session 999999000) (NetworkError TypeError))
        (example_request [] (Some ''__session=stored'')) = Inr (example_session 999999000)"
proof -
  let ?S = "example_session 999999000"
  let ?H = "example_host 1000000000 ?S (NetworkError TypeError)"
  let ?R = "example_request [] (Some ''__session=stored'')"
  let ?B = "JObj [(''accessToken'', JStr ''a2''), (''idToken'', JStr ''i2''),
                   (''refreshToken'', JStr ''r2''), (''expiresAt'', JNum (Fin 1172800000))]"
  note t = session_cookie_maxAge_independent[where h = "?H" and s = "?S" and e = 999999000
      and req = "?R" and tokens = example_long_tokens and x = 172800
      and fallback = JUndefined and built = "?B"]
  have ei: "get_prop example_long_tokens ''expires_in'' = Inr (JNum (Fin 172800))"
    by (simp add: example_long_tokens_def)
  have now: "Date_now ?H = 1000000000" by (simp add: example_host_def)
  have a: "1172800000 > Date_now ?H + maxAge (sessionCookie ?H) * 1000"
    using t ei example_long_tokens_session[of ?S "NetworkError TypeError"]
    by (simp add: COOKIE_CONFIG_def)
  have ser: "cookie_serialize ?H (sessionCookie ?H) ?S = ''__session=stored; Max-Age=n''"
    by (simp add: example_host_def sessionCookie_def COOKIE_CONFIG_def)
  have b: "createSessionHeader ?H ?S = ''__session=stored; Max-Age=n''"
    using t example_session_truthy[of 999999000] ser by simp
  have c: "getSession ?H ?R = Inr ?S"
    using t example_session_fields[of 999999000] example_session_expiresAt[of 999999000]
      example_host_session_parse[of 1000000000 ?S "NetworkError TypeError" "[]"]
    by (simp add: example_host_readings session_cookie_maxAge_value)
  from a b c show ?thesis by simp
qed

text \<open>
  The claim of C7 as it is written makes the ceiling a bound on the expiry of the
  tokens. It is not: the development session expires a year after it is written, which
  is beyond the ceiling of its cookie, and beyond a ceiling of 7 days as well.
\<close>

theorem session_cookie_maxAge_counterexample:
  "get_prop (createDevSession (example_host 1000000000 JNull (NetworkError TypeError))) ''expiresAt''
       = Inr (JNum (Fin 32536000000))
   \<and> \<not> (Date_now (example_host 1000000000 JNull (NetworkError TypeError))
          + maxAge (sessionCookie (example_host 1000000000 JNull (NetworkError TypeError))) * 1000
          \<ge> 32536000000)
   \<and> \<not> (Date_now (example_host 1000000000 JNull (NetworkError TypeError))
          + 7 * 24 * 60 * 60 * 1000 \<ge> 32536000000)"
  using createDevSession_expiresAt[of "example_host 1000000000 JNull (NetworkError TypeError)"]
  by (simp add: sessionCookie_def COOKIE_CONFIG_def example_host_def)

section \<open>Failure of the token refresh\<close>

lemma createSessionHeader_null:
  "createSessionHeader h JNull = cookie_serialize h ((sessionCookie h)\<lparr> maxAge := 0 \<rparr>) (JStr [])"
  by (simp add: createSessionHeader_def)

lemma read_token_response_fails:
  "read_token_response msg (NetworkError e) = Inl e"
  "read_token_response msg (HttpResponse False rtext body) = Inl (Error (msg @ rtext))"
  "read_token_response msg (HttpResponse True rtext (Inl e)) = Inl e"
  "read_token_response msg (HttpResponse True rtext (Inr JNull)) = Inl TypeError"
  by (simp_all add: read_token_response_def)

lemma refresh_try_throws:
  assumes "truthy session" and "sessionNeedsRefresh h session = Inr True"
    and "getAuth0Config h req = Inl e0 \<or>
         (getAuth0Config h req = Inr config \<and>
          get_prop session ''refreshToken'' = Inr prior \<and>
          fetch h (token_endpoint config) (refresh_token_grant config prior) = outcome \<and>
          (outcome = NetworkError e1 \<or>
           outcome = HttpResponse False rtext body \<or>
           outcome = HttpResponse True rtext (Inl e2) \<or>
           outcome = HttpResponse True rtext (Inr JNull) \<or>
           (outcome = HttpResponse True rtext (Inr tokens) \<and>
            get_prop tokens ''refresh_token'' = Inr rt \<and> \<not> truthy rt \<and> \<not> truthy prior)))"
  shows "snd (refreshSessionIfNeeded h req session) =
           Inr (AuthLoaderData JNull
                  (Some (cookie_serialize h ((sessionCookie h)\<lparr> maxAge := 0 \<rparr>) (JStr []))))"
proof -
  have "\<exists>calls e. refresh_try h req session = (calls, Inl e)"
    using assms(3)
  proof (elim disjE conjE)
    assume "getAuth0Config h req = Inl e0"
    then show ?thesis by (simp add: refresh_try_def)
  next
    assume "getAuth0Config h req = Inr config" "get_prop session ''refreshToken'' = Inr prior"
      "fetch h (token_endpoint config) (refresh_token_grant config prior) = outcome"
      "outcome = NetworkError e1"
    then show ?thesis
      by (simp add: refresh_try_def refreshTokens_def read_token_response_fails)
  next
    assume "getAuth0Config h req = Inr config" "get_prop session ''refreshToken'' = Inr prior"
      "fetch h (token_endpoint config) (refresh_token_grant config prior) = outcome"
      "outcome = HttpResponse False rtext body"
    then show ?thesis
      by (simp add: refresh_try_def refreshTokens_def read_token_response_fails)
  next
    assume "getAuth0Config h req = Inr config" "get_prop session ''refreshToken'' = Inr prior"
      "fetch h (token_endpoint config) (refresh_token_grant config prior) = outcome"
      "outcome = HttpResponse True rtext (Inl e2)"
    then show ?thesis
      by (simp add: refresh_try_def refreshTokens_def read_token_response_fails)
  next
    assume "getAuth0Config h req = Inr config" "get_prop session ''refreshToken'' = Inr prior"
      "fetch h (token_endpoint config) (refresh_token_grant config prior) = outcome"
      "outcome = HttpResponse True rtext (Inr JNull)"
    then show ?thesis
      by (simp add: refresh_try_def refreshTokens_def read_token_response_fails)
  next
    assume a: "getAuth0Config h req = Inr config" "get_prop session ''refreshToken'' = Inr prior"
      "fetch h (token_endpoint config) (refresh_token_grant config prior) = outcome"
      "outcome = HttpResponse True rtext (Inr tokens)"
      and rt: "get_prop tokens ''refresh_token'' = Inr rt" "\<not> truthy rt" "\<not> truthy prior"
    have "createSessionData (tick h) tokens prior = Inl (Error ''No refresh token available'')"
      using createSessionData_cases[OF rt(1), of prior "tick h"] rt(2,3) by (simp add: js_or_def)
    with a show ?thesis
      by (simp add: refresh_try_def refreshTokens_def read_token_response_ok[OF rt(1)])
  qed
  then obtain calls e where "refresh_try h req session = (calls, Inl e)" by blast
  then show ?thesis
    unfolding refreshSessionIfNeeded_due[OF assms(1,2)]
    by (simp add: createSessionHeader_null)
qed

lemma and_then_Inr: "and_then m f = Inr y \<longleftrightarrow> (\<exists>x. m = Inr x \<and> f x = Inr y)"
  by (cases m) auto

lemma read_token_response_Inr:
  assumes "read_token_response msg outcome = Inr tokens"
  shows "\<exists>rtext. outcome = HttpResponse True rtext (Inr tokens)"
  using assms
  by (cases outcome) (auto simp: read_token_response_def and_then_Inr split: if_splits)

text \<open>For a session that is due, what is returned is the cleared session, or the session
  that \<open>createSessionData\<close> built from the body of the success response that \<open>fetch\<close> gave
  to the refresh call.\<close>

lemma refresh_due_result:
  assumes "truthy session" and "sessionNeedsRefresh h session = Inr True"
  shows "snd (refreshSessionIfNeeded h req session) =
           Inr (AuthLoaderData JNull
                  (Some (cookie_serialize h ((sessionCookie h)\<lparr> maxAge := 0 \<rparr>) (JStr []))))
       \<or> (\<exists>config prior rtext tokens s.
             getAuth0Config h req = Inr config \<and>
             get_prop session ''refreshToken'' = Inr prior \<and>
             fetch h (token_endpoint config) (refresh_token_grant config prior)
               = HttpResponse True rtext (Inr tokens) \<and>
             createSessionData (tick h) tokens prior = Inr s \<and>
             refreshSessionIfNeeded h req session =
               ([(token_endpoint config, refresh_token_grant config prior)],
                Inr (AuthLoaderData s (Some (createSessionHeader h s)))))"
proof (cases "getAuth0Config h req")
  case (Inl e)
  then show ?thesis
    unfolding refreshSessionIfNeeded_due[OF assms]
    by (simp add: refresh_try_def createSessionHeader_null)
next
  case (Inr config)
  obtain prior where prior: "get_prop session ''refreshToken'' = Inr prior"
    using get_prop_truthy[OF assms(1)] by blast
  let ?out = "fetch h (token_endpoint config) (refresh_token_grant config prior)"
  show ?thesis
  proof (cases "read_token_response ''Token refresh failed: '' ?out")
    case (Inl e)
    then show ?thesis
      unfolding refreshSessionIfNeeded_due[OF assms]
      by (simp add: refresh_try_def Inr prior refreshTokens_def createSessionHeader_null)
  next
    case tok: (Inr tokens)
    then obtain rtext where out: "?out = HttpResponse True rtext (Inr tokens)"
      using read_token_response_Inr by blast
    show ?thesis
    proof (cases "createSessionData (tick h) tokens prior")
      case (Inl e)
      then show ?thesis
        unfolding refreshSessionIfNeeded_due[OF assms]
        by (simp add: refresh_try_def Inr prior refreshTokens_def tok createSessionHeader_null)
    next
      case built: (Inr s)
      have "refreshSessionIfNeeded h req session =
               ([(token_endpoint config, refresh_token_grant config prior)],
                Inr (AuthLoaderData s (Some (createSessionHeader h s))))"
        unfolding refreshSessionIfNeeded_due[OF assms]
        by (simp add: refresh_try_def Inr prior refreshTokens_def tok built)
      with Inr prior out built show ?thesis by blast
    qed
  qed
qed

text \<open>
  C2, as the code has it. For a non-null session that is due for refresh,
  \<open>refreshSessionIfNeeded\<close> returns \<open>{session: null}\<close> with the header that deletes the
  session cookie (the empty value serialized with \<open>maxAge\<close> 0) whenever the \<open>try\<close> block
  throws: the configuration is incomplete, the network fails, the status is not a
  success, the body is not JSON or is \<open>null\<close>, or no refresh token is available (none in
  the response and an empty prior one). Whatever the outcome, what is returned is either
  that, or the session that \<open>createSessionData\<close> built from the body of the success
  response to the refresh call, with the session's refresh token as fallback, together
  with the header that stores it.
\<close>

theorem refresh_failure_clears_session:
  assumes "truthy session" and "sessionNeedsRefresh h session = Inr True"
  shows "(getAuth0Config h req = Inl e0 \<or>
          (getAuth0Config h req = Inr config \<and>
           get_prop session ''refreshToken'' = Inr prior \<and>
           fetch h (token_endpoint config) (refresh_token_grant config prior) = outcome \<and>
           (outcome = NetworkError e1 \<or>
            outcome = HttpResponse False rtext body \<or>
            outcome = HttpResponse True rtext (Inl e2) \<or>
            outcome = HttpResponse True rtext (Inr JNull) \<or>
            (outcome = HttpResponse True rtext (Inr tokens) \<and>
             get_prop tokens ''refresh_token'' = Inr rt \<and> \<not> truthy rt \<and> \<not> truthy prior)))
          \<longrightarrow>
          snd (refreshSessionIfNeeded h req session) =
            Inr (AuthLoaderData JNull
                   (Some (cookie_serialize h ((sessionCookie h)\<lparr> maxAge := 0 \<rparr>) (JStr [])))))
       \<and> (snd (refreshSessionIfNeeded h req session) =
            Inr (AuthLoaderData JNull
                   (Some (cookie_serialize h ((sessionCookie h)\<lparr> maxAge := 0 \<rparr>) (JStr []))))
          \<or> (\<exists>config' prior' rtext' tokens' s.
                getAuth0Config h req = Inr config' \<and>
                get_prop session ''refreshToken'' = Inr prior' \<and>
                fetch h (token_endpoint config') (refresh_token_grant config' prior')
                  = HttpResponse True rtext' (Inr tokens') \<and>
                createSessionData (tick h) tokens' prior' = Inr s \<and>
                refreshSessionIfNeeded h req session =
                  ([(token_endpoint config', refresh_token_grant config' prior')],
                   Inr (AuthLoaderData s (Some (createSessionHeader h s))))))"
  using refresh_try_throws[OF assms, of req e0 config prior outcome e1 rtext body e2 tokens rt]
    refresh_due_result[OF assms, of req]
  by blast

theorem refresh_failure_clears_session_witness:
  "refreshSessionIfNeeded
     (example_host 1000000000 JNull (HttpResponse False ''invalid_grant'' (Inl TypeError)))
     (example_request [] (Some ''__session=stored'')) (example_session 999999000)
   = ([(token_endpoint example_config, refresh_token_grant example_config (JStr ''r''))],
      Inr (AuthLoaderData JNull (Some ''__session=other; Max-Age=0'')))"
proof -
  let ?H = "example_host 1000000000 JNull (HttpResponse False ''invalid_grant'' (Inl TypeError))"
  let ?R = "example_request [] (Some ''__session=stored'')"
  let ?S = "example_session 999999000"
  have del: "cookie_serialize ?H ((sessionCookie ?H)\<lparr> maxAge := 0 \<rparr>) (JStr [])
             = ''__session=other; Max-Age=0''"
    by (simp add: example_host_def sessionCookie_def)
  have calls: "fst (refreshSessionIfNeeded ?H ?R ?S)
               = [(token_endpoint example_config, refresh_token_grant example_config (JStr ''r''))]"
    unfolding refreshSessionIfNeeded_due[OF example_session_truthy example_session_due]
    by (simp add: refresh_try_def example_getAuth0Config example_session_refreshToken
        refreshTokens_def example_fetch read_token_response_fails)
  have "snd (refreshSessionIfNeeded ?H ?R ?S)
        = Inr (AuthLoaderData JNull (Some ''__session=other; Max-Age=0''))"
    using refresh_failure_clears_session[where h = "?H" and req = "?R" and session = "?S"
        and config = example_config and prior = "JStr ''r''"
        and outcome = "HttpResponse False ''invalid_grant'' (Inl TypeError)"
        and rtext = "''invalid_grant''" and body = "Inl TypeError",
        OF example_session_truthy example_session_due]
    by (simp add: example_getAuth0Config example_session_refreshToken example_fetch del)
  with calls show ?thesis by (simp add: prod_eq_iff)
qed

text \<open>
  The claim of C2 as it is written counts a response that lacks required fields as a
  failure. The code does not: a success response with the body \<open>{}\<close> yields a session
  whose \<open>accessToken\<close> and \<open>idToken\<close> are \<open>undefined\<close> and whose \<open>expiresAt\<close> is \<open>NaN\<close>,
  returned with a cookie that stores it.
\<close>

theorem refresh_partial_session_counterexample:
  "refreshSessionIfNeeded
     (example_host 1000000000 JNull (HttpResponse True [] (Inr (JObj []))))
     (example_request [] (Some ''__session=stored'')) (example_session 999999000)
   = ([(token_endpoint example_config, refresh_token_grant example_config (JStr ''r''))],
      Inr (AuthLoaderData
             (JObj [(''accessToken'', JUndefined), (''idToken'', JUndefined),
                    (''refreshToken'', JStr ''r''), (''expiresAt'', JNum NaN)])
             (Some ''__session=other; Max-Age=n'')))"
  unfolding refreshSessionIfNeeded_due[OF example_session_truthy example_session_due]
  by (simp add: refresh_try_def example_getAuth0Config example_session_refreshToken
      refreshTokens_def example_fetch read_token_response_def createSessionData_def js_or_def
      createSessionHeader_def)
    (simp add: example_host_def sessionCookie_def COOKIE_CONFIG_def)

section \<open>The callback: state verification before the code exchange\<close>

lemma loader_calls_verified:
  assumes "fst (loader h req) \<noteq> []"
  shows "\<exists>code state. searchParams_get req ''code'' = Some code \<and> code \<noteq> [] \<and>
           searchParams_get req ''state'' = Some state \<and> state \<noteq> [] \<and>
           verifyState h req state"
  using assms
  by (auto simp: loader_def Let_def missing_def split: option.splits if_splits)

lemma verifyState_iff:
  "verifyState h req state \<longleftrightarrow>
     cookie_parse h (stateCookie h) (header_Cookie req) = JStr state"
proof -
  have "strict_equals v (JStr state) \<longleftrightarrow> v = JStr state" for v
  proof (cases v)
    case (JNum n)
    then show ?thesis by (cases n) auto
  qed auto
  then show ?thesis by (simp add: verifyState_def)
qed

text \<open>
  C1, as the code has it. A callback request that carries a non-empty \<open>code\<close> and a
  non-empty \<open>state\<close>, where the state is not the one the state cookie holds, makes no
  call of the token endpoint and is answered with the redirect to
  \<open>/login?error=invalid_state\<close>. For every request: a mismatching state means no call of
  the token endpoint; a call is made only for a state that \<open>verifyState\<close> accepted; and
  \<open>verifyState\<close> accepts exactly the string the cookie framework reads from the state
  cookie, so it rejects every state when the framework reads \<open>null\<close> (no cookie).
\<close>

theorem loader_state_mismatch:
  "(searchParams_get req ''code'' = Some code \<and> code \<noteq> [] \<and>
    searchParams_get req ''state'' = Some state \<and> state \<noteq> [] \<and>
    \<not> verifyState h req state \<longrightarrow>
      loader h req = ([], Inr (Redirect ''/login?error=invalid_state'' None)))
   \<and> (searchParams_get req ''state'' = Some state \<and> \<not> verifyState h req state \<longrightarrow>
      fst (loader h req) = [])
   \<and> (fst (loader h req) \<noteq> [] \<longrightarrow>
      (\<exists>s. searchParams_get req ''state'' = Some s \<and> verifyState h req s))
   \<and> (verifyState h req state \<longleftrightarrow>
      cookie_parse h (stateCookie h) (header_Cookie req) = JStr state)
   \<and> (cookie_parse h (stateCookie h) (header_Cookie req) = JNull \<longrightarrow>
      \<not> verifyState h req state)"
proof -
  have a: "searchParams_get req ''code'' = Some code \<and> code \<noteq> [] \<and>
    searchParams_get req ''state'' = Some state \<and> state \<noteq> [] \<and>
    \<not> verifyState h req state \<longrightarrow>
      loader h req = ([], Inr (Redirect ''/login?error=invalid_state'' None))"
    by (simp add: loader_def Let_def missing_def)
  have b: "searchParams_get req ''state'' = Some state \<and> \<not> verifyState h req state \<longrightarrow>
      fst (loader h req) = []"
  proof (intro impI, elim conjE, rule ccontr)
    assume s: "searchParams_get req ''state'' = Some state" and n: "\<not> verifyState h req state"
      and "fst (loader h req) \<noteq> []"
    then obtain s' where "searchParams_get req ''state'' = Some s'" "verifyState h req s'"
      using loader_calls_verified[of h req] by blast
    with s n show False by simp
  qed
  have c: "fst (loader h req) \<noteq> [] \<longrightarrow>
      (\<exists>s. searchParams_get req ''state'' = Some s \<and> verifyState h req s)"
    using loader_calls_verified[of h req] by blast
  have d: "verifyState h req state \<longleftrightarrow>
      cookie_parse h (stateCookie h) (header_Cookie req) = JStr state"
    by (rule verifyState_iff)
  from a b c d show ?thesis by simp
qed

theorem loader_state_mismatch_witness:
  "loader (example_host 1000000000 (JStr ''s2'') (HttpResponse True [] (Inr example_tokens)))
     (example_request [(''code'', ''x''), (''state'', ''s1'')] (Some ''__auth_state=stored''))
     = ([], Inr (Redirect ''/login?error=invalid_state'' None))
   \<and> loader (example_host 1000000000 (JStr ''s2'') (HttpResponse True [] (Inr example_tokens)))
     (example_request [(''code'', ''x''), (''state'', ''s1'')] None)
     = ([], Inr (Redirect ''/login?error=invalid_state'' None))"
proof -
  let ?H = "example_host 1000000000 (JStr ''s2'') (HttpResponse True [] (Inr example_tokens))"
  let ?R = "example_request [(''code'', ''x''), (''state'', ''s1'')] (Some ''__auth_state=stored'')"
  let ?Rn = "example_request [(''code'', ''x''), (''state'', ''s1'')] None"
  have v: "\<not> verifyState ?H ?R ''s1''" "\<not> verifyState ?H ?Rn ''s1''"
    by (simp_all add: verifyState_def stateCookie_def example_host_def example_request_def)
  have a: "loader ?H ?R = ([], Inr (Redirect ''/login?error=invalid_state'' None))"
    using loader_state_mismatch[where h = "?H" and req = "?R" and code = "''x''"
        and state = "''s1''"] example_params[of "Some ''__auth_state=stored''"] v(1)
    by simp
  have b: "loader ?H ?Rn = ([], Inr (Redirect ''/login?error=invalid_state'' None))"
    using loader_state_mismatch[where h = "?H" and req = "?Rn" and code = "''x''"
        and state = "''s1''"] example_params[of "None :: string option"] v(2)
    by simp
  from a b show ?thesis by simp
qed

text \<open>
  The claim of C1 as it is written covers every request whose state does not match. A
  request with a mismatching state and no \<open>code\<close> is not redirected: the loader throws
  before it verifies the state.
\<close>

theorem loader_missing_code_counterexample:
  "\<not> verifyState (example_host 1000000000 (JStr ''s2'') (HttpResponse True [] (Inr example_tokens)))
       (example_request [(''state'', ''s1'')] (Some ''__auth_state=stored'')) ''s1''
   \<and> loader (example_host 1000000000 (JStr ''s2'') (HttpResponse True [] (Inr example_tokens)))
       (example_request [(''state'', ''s1'')] (Some ''__auth_state=stored''))
     = ([], Inl (Error ''Invalid callback parameters''))"
  by (simp add: verifyState_def stateCookie_def example_host_def example_request_def
      loader_def Let_def searchParams_get_def missing_def)

section \<open>Malformed input\<close>

lemma isRefreshable_total: "truthy s \<Longrightarrow> \<exists>b. isRefreshable h s = Inr b"
  using get_prop_truthy[of s "''expiresAt''"] by (auto simp: isRefreshable_def)

lemma isValidSession_total: "\<exists>b. isValidSession h s = Inr b"
proof -
  obtain f where f: "hasValidSessionFields s = Inr f"
    using hasValidSessionFields_total by blast
  show ?thesis
  proof (cases f)
    case True
    then have "truthy s" using f hasValidSessionFields_truthy by auto
    then obtain x where "get_prop s ''expiresAt'' = Inr x" using get_prop_truthy by blast
    with f True show ?thesis by (simp add: isValidSession_def)
  next
    case False
    with f show ?thesis by (auto simp add: isValidSession_def)
  qed
qed

lemma getSession_total: "\<exists>v. getSession h req = Inr v"
proof -
  let ?data = "cookie_parse h (sessionCookie h) (header_Cookie req)"
  show ?thesis
  proof (cases "truthy ?data")
    case False
    then show ?thesis by (simp add: getSession_def)
  next
    case True
    obtain f where f: "hasValidSessionFields ?data = Inr f"
      using hasValidSessionFields_total by blast
    obtain v where v: "isValidSession h ?data = Inr v"
      using isValidSession_total by blast
    obtain va where va: "isValidSession (tick h) ?data = Inr va"
      using isValidSession_total by blast
    obtain vb where vb: "isValidSession (tick (tick h)) ?data = Inr vb"
      using isValidSession_total by blast
    obtain r where r: "isRefreshable (tick h) ?data = Inr r"
      using isRefreshable_total[OF True] by blast
    show ?thesis
      using True f v va vb r by (simp add: getSession_def Let_def)
  qed
qed

lemma getSession_malformed:
  assumes "hasValidSessionFields (cookie_parse h (sessionCookie h) (header_Cookie req)) \<noteq> Inr True"
  shows "getSession h req = Inr JNull"
proof -
  let ?data = "cookie_parse h (sessionCookie h) (header_Cookie req)"
  obtain f where f: "hasValidSessionFields ?data = Inr f"
    using hasValidSessionFields_total by blast
  with assms have "\<not> f" by auto
  with f show ?thesis by (simp add: getSession_def Let_def)
qed

lemma split_on_no_separator: "d \<notin> set s \<Longrightarrow> split_on d s = [s]"
  by (induction s) auto

lemma split_on_first: "\<exists>p ps. split_on d s = p # ps"
  by (induction s) (auto split: list.splits)

text \<open>\<open>parseJwt\<close> by the outcome of each step, for a token whose segments are \<open>p\<close> and
  \<open>rest\<close>.\<close>

lemma parseJwt_eq:
  assumes "split_on CHR ''.'' token = p # rest"
  shows "parseJwt h token =
     Inr (case atob h p of
            Inl e \<Rightarrow> JNull
          | Inr decoded \<Rightarrow>
              (case JSON_parse h decoded of
                 Inl e \<Rightarrow> JNull
               | Inr header \<Rightarrow>
                   (case get_prop header ''enc'' of
                      Inl e \<Rightarrow> JNull
                    | Inr enc \<Rightarrow>
                        if truthy enc then JNull
                        else
                          (case rest of
                             [] \<Rightarrow> JNull
                           | b # others \<Rightarrow>
                               if b = [] then JNull
                               else
                                 (case atob h (base64url_to_base64 b) of
                                    Inl e \<Rightarrow> JNull
                                  | Inr binary \<Rightarrow>
                                      (case decodeURIComponent h (percent_encode binary) of
                                         Inl e \<Rightarrow> JNull
                                       | Inr jsonPayload \<Rightarrow>
                                           (case JSON_parse h jsonPayload of
                                              Inl e \<Rightarrow> JNull
                                            | Inr payload \<Rightarrow> payload)))))))"
  by (simp add: parseJwt_def parseJwt_try_def assms split: sum.splits list.splits)

text \<open>
  C6, as the code has it. \<open>getSession\<close> never throws, and returns \<open>null\<close> when the cookie
  framework reads a value that is falsy or lacks one of the four fields. \<open>parseJwt\<close>
  never throws, and returns \<open>null\<close> for a token without a dot or with an empty second
  segment, for a header that does not decode, is \<open>null\<close> or marks the token as encrypted,
  and for a payload that does not decode. The callback loader does throw: a request
  without a (non-empty) \<open>code\<close> or \<open>state\<close> ends in the exception
  \<open>Invalid callback parameters\<close>, with no call of the token endpoint.
\<close>

theorem malformed_input:
  "(\<exists>v. getSession h req = Inr v)
   \<and> (hasValidSessionFields (cookie_parse h (sessionCookie h) (header_Cookie req)) \<noteq> Inr True
        \<longrightarrow> getSession h req = Inr JNull)
   \<and> (\<exists>v. parseJwt h token = Inr v)
   \<and> (CHR ''.'' \<notin> set token \<longrightarrow> parseJwt h token = Inr JNull)
   \<and> (split_on CHR ''.'' token = p # [] # others \<longrightarrow> parseJwt h token = Inr JNull)
   \<and> (split_on CHR ''.'' token = p # rest \<and>
        (atob h p = Inl e \<or>
         (atob h p = Inr decoded \<and>
          (JSON_parse h decoded = Inl e \<or>
           JSON_parse h decoded = Inr JNull \<or>
           (JSON_parse h decoded = Inr header \<and>
            get_prop header ''enc'' = Inr enc \<and> truthy enc))))
        \<longrightarrow> parseJwt h token = Inr JNull)
   \<and> (split_on CHR ''.'' token = p # b # others \<and>
        (atob h (base64url_to_base64 b) = Inl e \<or>
         (atob h (base64url_to_base64 b) = Inr binary \<and>
          (decodeURIComponent h (percent_encode binary) = Inl e \<or>
           (decodeURIComponent h (percent_encode binary) = Inr jsonPayload \<and>
            JSON_parse h jsonPayload = Inl e))))
        \<longrightarrow> parseJwt h token = Inr JNull)
   \<and> (missing (searchParams_get req ''code'') \<or> missing (searchParams_get req ''state'')
        \<longrightarrow> loader h req = ([], Inl (Error ''Invalid callback parameters'')))"
proof -
  have a: "\<exists>v. getSession h req = Inr v" by (rule getSession_total)
  have b: "hasValidSessionFields (cookie_parse h (sessionCookie h) (header_Cookie req)) \<noteq> Inr True
        \<longrightarrow> getSession h req = Inr JNull"
    using getSession_malformed by blast
  obtain q qs where q: "split_on CHR ''.'' token = q # qs"
    using split_on_first by blast
  have c: "\<exists>v. parseJwt h token = Inr v"
    unfolding parseJwt_eq[OF q] by blast
  have d: "CHR ''.'' \<notin> set token \<longrightarrow> parseJwt h token = Inr JNull"
  proof
    assume "CHR ''.'' \<notin> set token"
    then have "split_on CHR ''.'' token = [token]" by (rule split_on_no_separator)
    then show "parseJwt h token = Inr JNull"
      by (simp add: parseJwt_eq split: sum.splits)
  qed
  have e: "split_on CHR ''.'' token = p # [] # others \<longrightarrow> parseJwt h token = Inr JNull"
    by (auto simp: parseJwt_eq split: sum.splits)
  have f: "split_on CHR ''.'' token = p # rest \<and>
        (atob h p = Inl e \<or>
         (atob h p = Inr decoded \<and>
          (JSON_parse h decoded = Inl e \<or>
           JSON_parse h decoded = Inr JNull \<or>
           (JSON_parse h decoded = Inr header \<and>
            get_prop header ''enc'' = Inr enc \<and> truthy enc))))
        \<longrightarrow> parseJwt h token = Inr JNull"
    by (auto simp: parseJwt_eq)
  have g: "split_on CHR ''.'' token = p # b # others \<and>
        (atob h (base64url_to_base64 b) = Inl e \<or>
         (atob h (base64url_to_base64 b) = Inr binary \<and>
          (decodeURIComponent h (percent_encode binary) = Inl e \<or>
           (decodeURIComponent h (percent_encode binary) = Inr jsonPayload \<and>
            JSON_parse h jsonPayload = Inl e))))
        \<longrightarrow> parseJwt h token = Inr JNull"
    by (auto simp: parseJwt_eq split: sum.splits)
  have l: "missing (searchParams_get req ''code'') \<or> missing (searchParams_get req ''state'')
        \<longrightarrow> loader h req = ([], Inl (Error ''Invalid callback parameters''))"
    by (auto simp: loader_def Let_def missing_def split: option.splits)
  from a b c d e f g l show ?thesis by blast
qed

lemma example_parseJwt_two_segments:
  "parseJwt (example_host now stored answer) ''e30.e30'' = Inr (JObj [])"
  by (simp add: parseJwt_def parseJwt_try_def example_host_def base64url_to_base64_def
      percent_encode_def slice_last2_def toString16_def hex_digit_def)
    code_simp

theorem malformed_input_witness:
  "getSession (example_host 1000000000 (JStr ''garbage'') (NetworkError TypeError))
     (example_request [] (Some ''__session=stored'')) = Inr JNull
   \<and> getSession (example_host 1000000000 (JStr ''garbage'') (NetworkError TypeError))
     (example_request [] None) = Inr JNull
   \<and> parseJwt (example_host 1000000000 JNull (NetworkError TypeError)) ''not-a-jwt'' = Inr JNull
   \<and> parseJwt (example_host 1000000000 JNull (NetworkError TypeError)) [] = Inr JNull
   \<and> parseJwt (example_host 1000000000 JNull (NetworkError TypeError)) ''e30..sig'' = Inr JNull
   \<and> parseJwt (example_host 1000000000 JNull (NetworkError TypeError)) ''bad.e30.sig'' = Inr JNull
   \<and> parseJwt (example_host 1000000000 JNull (NetworkError TypeError)) ''e30.bad.sig'' = Inr JNull
   \<and> loader (example_host 1000000000 JNull (NetworkError TypeError))
       (example_request [(''code'', ''x'')] None)
     = ([], Inl (Error ''Invalid callback parameters''))"
proof -
  let ?H = "example_host 1000000000 (JStr ''garbage'') (NetworkError TypeError)"
  let ?Hn = "example_host 1000000000 JNull (NetworkError TypeError)"
  let ?Ra = "example_request [] (Some ''__session=stored'')"
  let ?Rb = "example_request [] None"
  let ?Rc = "example_request [(''code'', ''x'')] None"
  have p1: "hasValidSessionFields (cookie_parse ?H (sessionCookie ?H) (header_Cookie ?Ra)) \<noteq> Inr True"
    by (simp add: example_host_def sessionCookie_def example_request_def hasValidSessionFields_def)
  have p2: "hasValidSessionFields (cookie_parse ?H (sessionCookie ?H) (header_Cookie ?Rb)) \<noteq> Inr True"
    by (simp add: example_host_def sessionCookie_def example_request_def hasValidSessionFields_def)
  have m: "missing (searchParams_get ?Rc ''state'')"
    by (simp add: missing_def searchParams_get_def example_request_def)
  have s2: "split_on CHR ''.'' ''e30..sig'' = ''e30'' # [] # [''sig'']" by simp
  have s3: "split_on CHR ''.'' ''bad.e30.sig'' = ''bad'' # [''e30'', ''sig'']" by simp
  have s4: "split_on CHR ''.'' ''e30.bad.sig'' = ''e30'' # ''bad'' # [''sig'']" by simp
  have bad: "atob ?Hn ''bad'' = Inl (HostError ''InvalidCharacterError'')"
    "atob ?Hn (base64url_to_base64 ''bad'') = Inl (HostError ''InvalidCharacterError'')"
    by (simp_all add: example_host_def base64url_to_base64_def)
  have a: "getSession ?H ?Ra = Inr JNull"
    using malformed_input[where h = "?H" and req = "?Ra" and token = "[]"] p1 by blast
  have b: "getSession ?H ?Rb = Inr JNull"
    using malformed_input[where h = "?H" and req = "?Rb" and token = "[]"] p2 by blast
  have c: "parseJwt ?Hn ''not-a-jwt'' = Inr JNull"
    using malformed_input[where h = "?Hn" and req = "?Rc" and token = "''not-a-jwt''"] by simp
  have d: "parseJwt ?Hn [] = Inr JNull"
    using malformed_input[where h = "?Hn" and req = "?Rc" and token = "[]"] by simp
  have e: "loader ?Hn ?Rc = ([], Inl (Error ''Invalid callback parameters''))"
    using malformed_input[where h = "?Hn" and req = "?Rc" and token = "[]"] m by blast
  have f: "parseJwt ?Hn ''e30..sig'' = Inr JNull"
    using malformed_input[where h = "?Hn" and req = "?Rc" and token = "''e30..sig''"
        and p = "''e30''" and others = "[''sig'']"] s2 by blast
  have g: "parseJwt ?Hn ''bad.e30.sig'' = Inr JNull"
    using malformed_input[where h = "?Hn" and req = "?Rc" and token = "''bad.e30.sig''"
        and p = "''bad''" and rest = "[''e30'', ''sig'']"
        and e = "HostError ''InvalidCharacterError''"] s3 bad(1)
    by blast
  have k: "parseJwt ?Hn ''e30.bad.sig'' = Inr JNull"
    using malformed_input[where h = "?Hn" and req = "?Rc" and token = "''e30.bad.sig''"
        and p = "''e30''" and b = "''bad''" and others = "[''sig'']"
        and e = "HostError ''InvalidCharacterError''"] s4 bad(2)
    by blast
  from a b c d e f g k show ?thesis by simp
qed

text \<open>
  The claim of C6 as it is written fails twice. On the callback, a request without
  \<open>code\<close> and \<open>state\<close> raises an exception to the caller of the loader. In \<open>parseJwt\<close>, which
  does not count the segments, a token of two segments, which is not the structure of a
  JWT, is parsed when its two segments decode: the result is the payload, not \<open>null\<close>.
\<close>

theorem malformed_input_counterexample:
  "loader (example_host 1000000000 JNull (NetworkError TypeError)) (example_request [] None)
     = ([], Inl (Error ''Invalid callback parameters''))
   \<and> split_on CHR ''.'' ''e30.e30'' = [''e30'', ''e30'']
   \<and> parseJwt (example_host 1000000000 JNull (NetworkError TypeError)) ''e30.e30''
       = Inr (JObj [])"
  using example_parseJwt_two_segments[of 1000000000 JNull "NetworkError TypeError"]
  by (simp add: loader_def Let_def searchParams_get_def example_request_def missing_def)

end
